theory Spec2Isabelle
  imports Main "HOL-Library.Char_ord" "HOL-Library.List_Lexorder" "HOL-Library.Sublist"
begin

section \<open>Versions, comparators and ranges of the semver package\<close>

text \<open>
  The program under study (\<^verbatim>\<open>lib/tasks.ts\<close> of npm-check-engines) computes with the
  objects of the \<^verbatim>\<open>semver\<close> package (7.3.8 is pinned in \<^verbatim>\<open>package.json\<close>), always in
  strict mode and without \<^verbatim>\<open>includePrerelease\<close> (\<^verbatim>\<open>rangeOptions = { loose: false }\<close>).
  The package is not part of the repository; this section transcribes the part of it that
  the program calls: \<^verbatim>\<open>SemVer.compare\<close>, \<^verbatim>\<open>Comparator\<close>, \<^verbatim>\<open>Range\<close> (constructor and
  \<^verbatim>\<open>test\<close>), \<^verbatim>\<open>minVersion\<close>, \<^verbatim>\<open>subset\<close> and \<^verbatim>\<open>Range.intersects\<close>.

  Numeric components are unbounded naturals here (JavaScript refuses components beyond
  \<^verbatim>\<open>Number.MAX_SAFE_INTEGER\<close> and version texts longer than 256 characters). Build
  metadata is dropped, as \<^verbatim>\<open>SemVer.version\<close> drops it.
\<close>

subsection \<open>Versions\<close>

text \<open>
  A prerelease identifier is a number or a string. In strict mode a string identifier
  always holds a letter or a hyphen, so it is never read as a number.
\<close>

datatype ident = Num nat | Str string

record SemVer =
  major :: nat
  minor :: nat
  patch :: nat
  prerelease :: "ident list"

abbreviation mkVer :: "nat \<Rightarrow> nat \<Rightarrow> nat \<Rightarrow> ident list \<Rightarrow> SemVer" where
  "mkVer a b c p \<equiv> \<lparr>major = a, minor = b, patch = c, prerelease = p\<rparr>"

text \<open>\<^verbatim>\<open>compareIdentifiers\<close> of \<^verbatim>\<open>internal/identifiers.js\<close>: numbers before strings,
  numbers by value, strings by code unit.\<close>

fun compareIdentifiers :: "ident \<Rightarrow> ident \<Rightarrow> int" where
  "compareIdentifiers (Num a) (Num b) = (if a = b then 0 else if a < b then -1 else 1)"
| "compareIdentifiers (Num a) (Str b) = -1"
| "compareIdentifiers (Str a) (Num b) = 1"
| "compareIdentifiers (Str a) (Str b) = (if a = b then 0 else if a < b then -1 else 1)"

definition compareNat :: "nat \<Rightarrow> nat \<Rightarrow> int" where
  "compareNat a b = (if a = b then 0 else if a < b then -1 else 1)"

definition compareMain :: "SemVer \<Rightarrow> SemVer \<Rightarrow> int" where
  "compareMain a b =
     (if compareNat (major a) (major b) \<noteq> 0 then compareNat (major a) (major b)
      else if compareNat (minor a) (minor b) \<noteq> 0 then compareNat (minor a) (minor b)
      else compareNat (patch a) (patch b))"

text \<open>The \<^verbatim>\<open>do ... while (++i)\<close> loop of \<^verbatim>\<open>SemVer.comparePre\<close>, on the two identifier
  lists from position \<open>i\<close> on.\<close>

fun comparePreLoop :: "ident list \<Rightarrow> ident list \<Rightarrow> int" where
  "comparePreLoop [] [] = 0"
| "comparePreLoop (a # as) [] = 1"
| "comparePreLoop [] (b # bs) = -1"
| "comparePreLoop (a # as) (b # bs) =
     (if a = b then comparePreLoop as bs else compareIdentifiers a b)"

definition comparePre :: "SemVer \<Rightarrow> SemVer \<Rightarrow> int" where
  "comparePre a b =
     (if prerelease a \<noteq> [] \<and> prerelease b = [] then -1
      else if prerelease a = [] \<and> prerelease b \<noteq> [] then 1
      else if prerelease a = [] \<and> prerelease b = [] then 0
      else comparePreLoop (prerelease a) (prerelease b))"

text \<open>\<^verbatim>\<open>semver.compare(a, b)\<close>. The source first returns 0 when the two version texts
  are equal; the component-wise comparison returns 0 there as well.\<close>

definition compare :: "SemVer \<Rightarrow> SemVer \<Rightarrow> int" where
  "compare a b = (if compareMain a b \<noteq> 0 then compareMain a b else comparePre a b)"

definition eq :: "SemVer \<Rightarrow> SemVer \<Rightarrow> bool" where
  "eq a b = (compare a b = 0)"

definition gt :: "SemVer \<Rightarrow> SemVer \<Rightarrow> bool" where
  "gt a b = (compare a b > 0)"

definition gte :: "SemVer \<Rightarrow> SemVer \<Rightarrow> bool" where
  "gte a b = (compare a b \<ge> 0)"

definition lt :: "SemVer \<Rightarrow> SemVer \<Rightarrow> bool" where
  "lt a b = (compare a b < 0)"

definition lte :: "SemVer \<Rightarrow> SemVer \<Rightarrow> bool" where
  "lte a b = (compare a b \<le> 0)"

subsection \<open>Text of a version\<close>

definition digitChar :: "nat \<Rightarrow> char" where
  "digitChar d = ''0123456789'' ! d"

function showNat :: "nat \<Rightarrow> string" where
  "showNat n = (if n < 10 then [digitChar n] else showNat (n div 10) @ [digitChar (n mod 10)])"
  by pat_completeness auto
termination
  by (relation "measure id") auto

declare showNat.simps [simp del]

text \<open>\<^verbatim>\<open>Array.prototype.join\<close>.\<close>

fun joinWith :: "string \<Rightarrow> string list \<Rightarrow> string" where
  "joinWith sep [] = []"
| "joinWith sep [x] = x"
| "joinWith sep (x # y # ys) = x @ sep @ joinWith sep (y # ys)"

fun identText :: "ident \<Rightarrow> string" where
  "identText (Num n) = showNat n"
| "identText (Str s) = s"

text \<open>\<^verbatim>\<open>SemVer.format\<close>: the field \<^verbatim>\<open>version\<close>.\<close>

definition versionText :: "SemVer \<Rightarrow> string" where
  "versionText v =
     showNat (major v) @ ''.'' @ showNat (minor v) @ ''.'' @ showNat (patch v) @
     (if prerelease v = [] then [] else ''-'' @ joinWith ''.'' (map identText (prerelease v)))"

subsection \<open>Comparators\<close>

text \<open>
  The operator \<^verbatim>\<open>''\<close> (written \<open>OpEq\<close>; the constructor turns \<^verbatim>\<open>=\<close> into it) asks for
  the version itself. \<open>ANY\<close> is the comparator of the empty text, whose \<^verbatim>\<open>semver\<close> field
  is the symbol \<^verbatim>\<open>ANY\<close> and whose operator and value are \<^verbatim>\<open>''\<close>.
\<close>

datatype operator = OpEq | OpLt | OpLe | OpGt | OpGe

datatype comparator = ANY | Cmp operator SemVer

fun operatorText :: "operator \<Rightarrow> string" where
  "operatorText OpEq = []"
| "operatorText OpLt = ''<''"
| "operatorText OpLe = ''<=''"
| "operatorText OpGt = ''>''"
| "operatorText OpGe = ''>=''"

text \<open>The field \<^verbatim>\<open>value\<close> of a comparator.\<close>

fun valueText :: "comparator \<Rightarrow> string" where
  "valueText ANY = []"
| "valueText (Cmp op v) = operatorText op @ versionText v"

text \<open>\<^verbatim>\<open>cmp(a, op, b)\<close> of \<^verbatim>\<open>functions/cmp.js\<close>.\<close>

fun cmp :: "SemVer \<Rightarrow> operator \<Rightarrow> SemVer \<Rightarrow> bool" where
  "cmp a OpEq b = eq a b"
| "cmp a OpLt b = lt a b"
| "cmp a OpLe b = lte a b"
| "cmp a OpGt b = gt a b"
| "cmp a OpGe b = gte a b"

text \<open>\<^verbatim>\<open>Comparator.test\<close>.\<close>

fun comparatorTest :: "comparator \<Rightarrow> SemVer \<Rightarrow> bool" where
  "comparatorTest ANY v = True"
| "comparatorTest (Cmp op s) v = cmp v op s"

text \<open>Does the comparator allow prereleases of the version's
  \<^verbatim>\<open>major.minor.patch\<close> tuple (the inner loop of \<^verbatim>\<open>testSet\<close>).\<close>

fun allowsPrereleaseOf :: "SemVer \<Rightarrow> comparator \<Rightarrow> bool" where
  "allowsPrereleaseOf v ANY = False"
| "allowsPrereleaseOf v (Cmp op s) =
     (prerelease s \<noteq> [] \<and> major s = major v \<and> minor s = minor v \<and> patch s = patch v)"

text \<open>\<^verbatim>\<open>testSet\<close> of \<^verbatim>\<open>classes/range.js\<close>, without \<^verbatim>\<open>includePrerelease\<close>.\<close>

definition testSet :: "comparator list \<Rightarrow> SemVer \<Rightarrow> bool" where
  "testSet cs v =
     (if \<not> list_all (\<lambda>c. comparatorTest c v) cs then False
      else if prerelease v \<noteq> [] then list_ex (allowsPrereleaseOf v) cs
      else True)"

subsection \<open>Ranges and the \<^verbatim>\<open>Range\<close> constructor on canonical text\<close>

text \<open>A \<^verbatim>\<open>Range\<close> object: the text it was built from and its comparator groups
  (the field \<^verbatim>\<open>set\<close>: a disjunction of conjunctions).\<close>

record Range =
  raw :: string
  setR :: "comparator list list"

text \<open>The text of a group list, as \<^verbatim>\<open>setToRange\<close> and \<^verbatim>\<open>Range.format\<close> build it:
  values joined by a blank, groups joined by \<^verbatim>\<open>||\<close>.\<close>

definition groupText :: "comparator list \<Rightarrow> string" where
  "groupText g = joinWith '' '' (map valueText g)"

definition setText :: "comparator list list \<Rightarrow> string" where
  "setText s = joinWith ''||'' (map groupText s)"

text \<open>
  \<^verbatim>\<open>new Range(text)\<close> is modelled on the texts the program builds with \<^verbatim>\<open>setToRange\<close>,
  that is on \<open>setText s\<close>: there every token is an operator followed by a full version,
  none of the rewriting steps for hyphen, caret, tilde, x-ranges and stars applies, and
  every token parses back to the comparator it was printed from. What the constructor
  still does on such a text is kept:
  \<^item> \<^verbatim>\<open>parseRange\<close> splits a group at blanks, so empty values vanish, and a group without
    any token is the single comparator \<open>ANY\<close>;
  \<^item> \<^verbatim>\<open>replaceGTE0\<close> turns the token \<^verbatim>\<open>>=0.0.0\<close> into \<open>ANY\<close>;
  \<^item> a group holding the null comparator \<^verbatim>\<open><0.0.0-0\<close> is that comparator alone;
  \<^item> a comparator is kept once (first position, the key of the map is its value), and
    \<open>ANY\<close> is deleted from a group of more than one comparator;
  \<^item> the constructor drops null groups when other groups remain, and replaces the whole
    list by the group \<open>[ANY]\<close> when more than one group remains and one of them is \<open>[ANY]\<close>.
\<close>

definition replaceGTE0 :: "comparator \<Rightarrow> comparator" where
  "replaceGTE0 c = (if c = Cmp OpGe (mkVer 0 0 0 []) then ANY else c)"

definition isNullSet :: "comparator \<Rightarrow> bool" where
  "isNullSet c = (c = Cmp OpLt (mkVer 0 0 0 [Num 0]))"

definition isAny :: "comparator \<Rightarrow> bool" where
  "isAny c = (c = ANY)"

text \<open>The insertion of the comparators into the \<^verbatim>\<open>Map\<close> keyed by value.\<close>

fun dedup :: "comparator list \<Rightarrow> comparator list" where
  "dedup [] = []"
| "dedup (c # cs) = c # dedup (filter (\<lambda>d. d \<noteq> c) cs)"

definition parseRange :: "comparator list \<Rightarrow> comparator list" where
  "parseRange g =
     (let toks = filter (\<lambda>c. c \<noteq> ANY) g;
          comps = map replaceGTE0 (if toks = [] then [ANY] else toks)
      in if list_ex isNullSet comps then [Cmp OpLt (mkVer 0 0 0 [Num 0])]
         else let m = dedup comps
              in if length m > 1 \<and> ANY \<in> set m then filter (\<lambda>c. c \<noteq> ANY) m else m)"

definition isAnyGroup :: "comparator list \<Rightarrow> bool" where
  "isAnyGroup g = (case g of [c] \<Rightarrow> isAny c | _ \<Rightarrow> False)"

definition newRangeSet :: "comparator list list \<Rightarrow> comparator list list" where
  "newRangeSet s =
     (let parsed = map parseRange (if s = [] then [[]] else s)
      in if length parsed > 1 then
           (let kept = filter (\<lambda>g. \<not> isNullSet (hd g)) parsed
            in if kept = [] then [hd parsed]
               else if length kept > 1 \<and> list_ex isAnyGroup kept then [[ANY]]
               else kept)
         else parsed)"

text \<open>The range \<^verbatim>\<open>new Range('*')\<close>, the start value of the aggregation.\<close>

definition starRange :: Range where
  "starRange = \<lparr>raw = ''*'', setR = [[ANY]]\<rparr>"

text \<open>\<^verbatim>\<open>Range.test\<close>.\<close>

definition rangeTest :: "Range \<Rightarrow> SemVer \<Rightarrow> bool" where
  "rangeTest r v = list_ex (\<lambda>g. testSet g v) (setR r)"

subsection \<open>Sorting and rebuilding a range (\<^verbatim>\<open>lib/tasks.ts\<close>)\<close>

datatype error = NotYetImplemented | TypeError

text \<open>
  \<^verbatim>\<open>sortRangeSet\<close> copies the groups and sorts them by the version of their first
  comparator. \<^verbatim>\<open>Array.prototype.sort\<close> is stable; with two groups or more it calls
  \<^verbatim>\<open>semver.compare\<close> on every group, which throws a \<^verbatim>\<open>TypeError\<close> on a group
  that is empty or starts with \<open>ANY\<close>.
\<close>

fun firstVersion :: "comparator list \<Rightarrow> SemVer option" where
  "firstVersion (Cmp op v # cs) = Some v"
| "firstVersion _ = None"

fun insertGroup :: "comparator list \<Rightarrow> comparator list list \<Rightarrow> comparator list list" where
  "insertGroup g [] = [g]"
| "insertGroup g (h # hs) =
     (if compare (the (firstVersion g)) (the (firstVersion h)) \<le> 0 then g # h # hs
      else h # insertGroup g hs)"

definition sortRangeSet :: "comparator list list \<Rightarrow> error + comparator list list" where
  "sortRangeSet s =
     (if length s \<ge> 2 \<and> list_ex (\<lambda>g. firstVersion g = None) s then Inl TypeError
      else if length s \<ge> 2 then Inr (foldr insertGroup s [])
      else Inr s)"

text \<open>\<^verbatim>\<open>setToRange\<close>: print the groups and build a range from the text.\<close>

definition setToRange :: "comparator list list \<Rightarrow> Range" where
  "setToRange s = \<lparr>raw = setText s, setR = newRangeSet s\<rparr>"

text \<open>\<^verbatim>\<open>satisfies(version, String(c))\<close>: the range of the text of one comparator.\<close>

definition satisfies :: "SemVer \<Rightarrow> comparator \<Rightarrow> bool" where
  "satisfies v c = rangeTest (setToRange [[c]]) v"

subsection \<open>\<^verbatim>\<open>minVersion\<close>\<close>

text \<open>One step of the \<^verbatim>\<open>forEach\<close> over the comparators of a group, on \<^verbatim>\<open>setMin\<close>.
  Reading the version of \<open>ANY\<close> throws. For the operator \<^verbatim>\<open>>\<close> the patch is raised, or
  the identifier 0 is appended to the prerelease, without a bound here: in JavaScript
  a patch beyond \<^verbatim>\<open>Number.MAX_SAFE_INTEGER\<close> or a version text beyond 256 characters is
  refused with a \<^verbatim>\<open>TypeError\<close> by the next constructor that reads the version.\<close>

definition raiseMin :: "SemVer \<Rightarrow> SemVer option \<Rightarrow> SemVer option" where
  "raiseMin compver setMin =
     (case setMin of None \<Rightarrow> Some compver
      | Some m \<Rightarrow> if gt compver m then Some compver else Some m)"

fun minStep :: "comparator \<Rightarrow> SemVer option \<Rightarrow> error + SemVer option" where
  "minStep ANY setMin = Inl TypeError"
| "minStep (Cmp OpGt s) setMin =
     Inr (raiseMin (if prerelease s = [] then s\<lparr>patch := patch s + 1\<rparr>
                    else s\<lparr>prerelease := prerelease s @ [Num 0]\<rparr>) setMin)"
| "minStep (Cmp OpEq s) setMin = Inr (raiseMin s setMin)"
| "minStep (Cmp OpGe s) setMin = Inr (raiseMin s setMin)"
| "minStep (Cmp OpLt s) setMin = Inr setMin"
| "minStep (Cmp OpLe s) setMin = Inr setMin"

fun minOfGroup :: "comparator list \<Rightarrow> SemVer option \<Rightarrow> error + SemVer option" where
  "minOfGroup [] setMin = Inr setMin"
| "minOfGroup (c # cs) setMin =
     (case minStep c setMin of Inl e \<Rightarrow> Inl e | Inr m \<Rightarrow> minOfGroup cs m)"

fun minOfSet :: "comparator list list \<Rightarrow> SemVer option \<Rightarrow> error + SemVer option" where
  "minOfSet [] minver = Inr minver"
| "minOfSet (g # gs) minver =
     (case minOfGroup g None of
        Inl e \<Rightarrow> Inl e
      | Inr None \<Rightarrow> minOfSet gs minver
      | Inr (Some setMin) \<Rightarrow>
          (case minver of
             None \<Rightarrow> minOfSet gs (Some setMin)
           | Some m \<Rightarrow> minOfSet gs (if gt m setMin then Some setMin else Some m)))"

definition minVersion :: "Range \<Rightarrow> error + SemVer option" where
  "minVersion r =
     (if rangeTest r (mkVer 0 0 0 []) then Inr (Some (mkVer 0 0 0 []))
      else if rangeTest r (mkVer 0 0 0 [Num 0]) then Inr (Some (mkVer 0 0 0 [Num 0]))
      else case minOfSet (setR r) None of
             Inl e \<Rightarrow> Inl e
           | Inr None \<Rightarrow> Inr None
           | Inr (Some m) \<Rightarrow> if rangeTest r m then Inr (Some m) else Inr None)"

subsection \<open>\<^verbatim>\<open>Range.intersects\<close> (version 7.3.8)\<close>

fun operatorOf :: "comparator \<Rightarrow> operator" where
  "operatorOf ANY = OpEq"
| "operatorOf (Cmp op v) = op"

definition isLower :: "comparator \<Rightarrow> bool" where
  "isLower c = (operatorOf c = OpGt \<or> operatorOf c = OpGe)"

definition isUpper :: "comparator \<Rightarrow> bool" where
  "isUpper c = (operatorOf c = OpLt \<or> operatorOf c = OpLe)"

text \<open>\<^verbatim>\<open>Comparator.intersects\<close>: an exact comparator is tested against the range of the
  other one; two bounds intersect when they point the same way, when they are inclusive
  at the same version, or when they face each other.\<close>

fun comparatorIntersects :: "comparator \<Rightarrow> comparator \<Rightarrow> bool" where
  "comparatorIntersects ANY other = True"
| "comparatorIntersects (Cmp OpEq v) other = satisfies v other"
| "comparatorIntersects (Cmp op v) ANY = True"
| "comparatorIntersects (Cmp op v) (Cmp OpEq w) = satisfies w (Cmp op v)"
| "comparatorIntersects (Cmp op v) (Cmp op' w) =
     ((isLower (Cmp op v) \<and> isLower (Cmp op' w)) \<or>
      (isUpper (Cmp op v) \<and> isUpper (Cmp op' w)) \<or>
      (v = w \<and> (op = OpGe \<or> op = OpLe) \<and> (op' = OpGe \<or> op' = OpLe)) \<or>
      (lt v w \<and> isLower (Cmp op v) \<and> isUpper (Cmp op' w)) \<or>
      (gt v w \<and> isUpper (Cmp op v) \<and> isLower (Cmp op' w)))"

text \<open>\<^verbatim>\<open>isSatisfiable\<close>: the comparator popped last is tested against all that remain.\<close>

function satisfiableLoop :: "comparator \<Rightarrow> comparator list \<Rightarrow> bool" where
  "satisfiableLoop t remaining =
     (if remaining = [] then True
      else if list_all (comparatorIntersects t) remaining
           then satisfiableLoop (last remaining) (butlast remaining)
      else False)"
  by pat_completeness auto
termination
  by (relation "measure (\<lambda>(t, remaining). length remaining)") auto

declare satisfiableLoop.simps [simp del]

definition isSatisfiable :: "comparator list \<Rightarrow> bool" where
  "isSatisfiable cs = (if cs = [] then True else satisfiableLoop (last cs) (butlast cs))"

definition intersects :: "Range \<Rightarrow> Range \<Rightarrow> bool" where
  "intersects this other =
     list_ex (\<lambda>thisComparators.
        isSatisfiable thisComparators \<and>
        list_ex (\<lambda>rangeComparators.
           isSatisfiable rangeComparators \<and>
           list_all (\<lambda>thisComparator.
              list_all (\<lambda>rangeComparator. comparatorIntersects thisComparator rangeComparator)
                rangeComparators) thisComparators) (setR other)) (setR this)"

subsection \<open>\<^verbatim>\<open>subset\<close> (\<^verbatim>\<open>ranges/subset.js\<close>)\<close>

text \<open>
  A bound is an operator with its version. \<^verbatim>\<open>higherGT(a, b)\<close> and \<^verbatim>\<open>lowerLT(a, b)\<close>
  return one of their two arguments; \<open>picksSecondGT\<close> and \<open>picksSecondLT\<close> say when it is
  \<^verbatim>\<open>b\<close> (the source then tests \<^verbatim>\<open>higher === c\<close>).
\<close>

type_synonym bound = "operator \<times> SemVer"

definition picksSecondGT :: "bound \<Rightarrow> bound \<Rightarrow> bool" where
  "picksSecondGT a b =
     (if compare (snd a) (snd b) > 0 then False
      else if compare (snd a) (snd b) < 0 then True
      else fst b = OpGt \<and> fst a = OpGe)"

definition picksSecondLT :: "bound \<Rightarrow> bound \<Rightarrow> bool" where
  "picksSecondLT a b =
     (if compare (snd a) (snd b) < 0 then False
      else if compare (snd a) (snd b) > 0 then True
      else fst b = OpLt \<and> fst a = OpLe)"

definition higherGT :: "bound option \<Rightarrow> bound \<Rightarrow> bound" where
  "higherGT a b = (case a of None \<Rightarrow> b | Some a' \<Rightarrow> if picksSecondGT a' b then b else a')"

definition lowerLT :: "bound option \<Rightarrow> bound \<Rightarrow> bound" where
  "lowerLT a b = (case a of None \<Rightarrow> b | Some a' \<Rightarrow> if picksSecondLT a' b then b else a')"

text \<open>The first loop of \<^verbatim>\<open>simpleSubset\<close>: the highest lower bound, the lowest upper
  bound and the exact versions of the sub-range. (A constructed group never holds
  \<open>ANY\<close> beside another comparator; the loop passes over it.)\<close>

fun collectBounds ::
  "comparator list \<Rightarrow> bound option \<times> bound option \<times> SemVer list
     \<Rightarrow> bound option \<times> bound option \<times> SemVer list" where
  "collectBounds [] acc = acc"
| "collectBounds (ANY # cs) acc = collectBounds cs acc"
| "collectBounds (Cmp op v # cs) (g, l, eqSet) =
     (if op = OpGt \<or> op = OpGe then collectBounds cs (Some (higherGT g (op, v)), l, eqSet)
      else if op = OpLt \<or> op = OpLe then collectBounds cs (g, Some (lowerLT l (op, v)), eqSet)
      else collectBounds cs (g, l, eqSet @ [v]))"

text \<open>Has the comparator of the dominating range a prerelease on the tuple of \<open>s\<close>.\<close>

fun prereleaseOnTuple :: "comparator \<Rightarrow> SemVer \<Rightarrow> bool" where
  "prereleaseOnTuple ANY s = False"
| "prereleaseOnTuple (Cmp op w) s =
     (prerelease w \<noteq> [] \<and> major w = major s \<and> minor w = minor s \<and> patch w = patch s)"

text \<open>The two tests of the second loop that answer \<^verbatim>\<open>false\<close> at once, for the lower
  bound \<^verbatim>\<open>gt\<close> and for the upper bound \<^verbatim>\<open>lt\<close> of the sub-range.\<close>

fun gtFails :: "bound option \<Rightarrow> comparator \<Rightarrow> bool" where
  "gtFails None c = False"
| "gtFails (Some g) ANY = (fst g = OpGe \<and> \<not> satisfies (snd g) ANY)"
| "gtFails (Some g) (Cmp op w) =
     (if op = OpGt \<or> op = OpGe then picksSecondGT g (op, w)
      else fst g = OpGe \<and> \<not> satisfies (snd g) (Cmp op w))"

fun ltFails :: "bound option \<Rightarrow> comparator \<Rightarrow> bool" where
  "ltFails None c = False"
| "ltFails (Some l) ANY = (fst l = OpLe \<and> \<not> satisfies (snd l) ANY)"
| "ltFails (Some l) (Cmp op w) =
     (if op = OpLt \<or> op = OpLe then picksSecondLT l (op, w)
      else fst l = OpLe \<and> \<not> satisfies (snd l) (Cmp op w))"

text \<open>
  The second loop, over the comparators of the dominating range. The state is
  \<^verbatim>\<open>(needDomGTPre, needDomLTPre, hasDomGT, hasDomLT)\<close>; \<open>None\<close> is \<^verbatim>\<open>return false\<close>.
  \<open>ne\<close> stands for \<^verbatim>\<open>gtltComp !== 0\<close>.
\<close>

fun domLoop ::
  "bound option \<Rightarrow> bound option \<Rightarrow> bool \<Rightarrow> comparator list
     \<Rightarrow> bool \<times> bool \<times> bool \<times> bool \<Rightarrow> (bool \<times> bool \<times> bool \<times> bool) option" where
  "domLoop g l ne [] st = Some st"
| "domLoop g l ne (c # cs) (needGT, needLT, hasGT, hasLT) =
     (if gtFails g c \<or> ltFails l c then None
      else if operatorOf c = OpEq \<and> (l \<noteq> None \<or> g \<noteq> None) \<and> ne then None
      else domLoop g l ne cs
             (needGT \<and> \<not> (case g of None \<Rightarrow> False | Some b \<Rightarrow> prereleaseOnTuple c (snd b)),
              needLT \<and> \<not> (case l of None \<Rightarrow> False | Some b \<Rightarrow> prereleaseOnTuple c (snd b)),
              hasGT \<or> isLower c, hasLT \<or> isUpper c))"

definition minimumVersion :: "comparator list" where
  "minimumVersion = [Cmp OpGe (mkVer 0 0 0 [])]"

text \<open>
  \<^verbatim>\<open>simpleSubset(sub, dom)\<close>; \<open>None\<close> is the answer \<^verbatim>\<open>null\<close> (the sub-range is empty).
  The first test of the source is \<^verbatim>\<open>sub === dom\<close>, on the arrays: \<^verbatim>\<open>parseRange\<close> keeps
  the array of every group text in a cache, so that two ranges built from the same group
  text share the array. Equality of the two groups stands for it here.
\<close>

definition simpleSubset :: "comparator list \<Rightarrow> comparator list \<Rightarrow> bool option" where
  "simpleSubset sub0 dom0 =
     (if sub0 = dom0 then Some True
      else if sub0 = [ANY] \<and> dom0 = [ANY] then Some True
      else
        let subC = (if sub0 = [ANY] then minimumVersion else sub0);
            domC = (if dom0 = [ANY] then minimumVersion else dom0);
            (g, l, eqSet) = collectBounds subC (None, None, []);
            gtltComp = (case (g, l) of (Some a, Some b) \<Rightarrow> Some (compare (snd a) (snd b))
                        | _ \<Rightarrow> None)
        in if length eqSet > 1 then None
           else if (case (g, l, gtltComp) of
                      (Some a, Some b, Some k) \<Rightarrow>
                         k > 0 \<or> (k = 0 \<and> (fst a \<noteq> OpGe \<or> fst b \<noteq> OpLe))
                    | _ \<Rightarrow> False) then None
           else case eqSet of
             e # _ \<Rightarrow>
               (if (case g of None \<Rightarrow> False | Some a \<Rightarrow> \<not> satisfies e (Cmp (fst a) (snd a)))
                then None
                else if (case l of None \<Rightarrow> False | Some b \<Rightarrow> \<not> satisfies e (Cmp (fst b) (snd b)))
                then None
                else Some (list_all (\<lambda>c. satisfies e c) domC))
           | [] \<Rightarrow>
               (let needLT0 = (case l of None \<Rightarrow> False
                               | Some b \<Rightarrow> prerelease (snd b) \<noteq> [] \<and>
                                   \<not> (prerelease (snd b) = [Num 0] \<and> fst b = OpLt));
                    needGT0 = (case g of None \<Rightarrow> False | Some a \<Rightarrow> prerelease (snd a) \<noteq> [])
                in case domLoop g l (gtltComp \<noteq> Some 0) domC (needGT0, needLT0, False, False) of
                     None \<Rightarrow> Some False
                   | Some (needGT, needLT, hasGT, hasLT) \<Rightarrow>
                       if g \<noteq> None \<and> hasLT \<and> l = None then Some False
                       else if l \<noteq> None \<and> hasGT \<and> g = None then Some False
                       else if needGT \<or> needLT then Some False
                       else Some True))"

text \<open>The two nested loops of \<^verbatim>\<open>subset\<close>; \<open>saw\<close> is \<^verbatim>\<open>sawNonNull\<close>, and the first
  component of the inner result says that \<^verbatim>\<open>continue OUTER\<close> was taken.\<close>

fun subsetInner :: "comparator list \<Rightarrow> comparator list list \<Rightarrow> bool \<Rightarrow> bool \<times> bool" where
  "subsetInner simpleSub [] saw = (False, saw)"
| "subsetInner simpleSub (simpleDom # ds) saw =
     (case simpleSubset simpleSub simpleDom of
        None \<Rightarrow> subsetInner simpleSub ds saw
      | Some True \<Rightarrow> (True, True)
      | Some False \<Rightarrow> subsetInner simpleSub ds True)"

fun subsetOuter :: "comparator list list \<Rightarrow> comparator list list \<Rightarrow> bool \<Rightarrow> bool" where
  "subsetOuter [] domSet saw = True"
| "subsetOuter (simpleSub # ss) domSet saw =
     (case subsetInner simpleSub domSet saw of
        (True, saw') \<Rightarrow> subsetOuter ss domSet saw'
      | (False, saw') \<Rightarrow> if saw' then False else subsetOuter ss domSet saw')"

definition subset :: "Range \<Rightarrow> Range \<Rightarrow> bool" where
  "subset sub super = subsetOuter (setR sub) (setR super) False"

section \<open>The reducer and the humanizer (\<^verbatim>\<open>lib/tasks.ts\<close>)\<close>

text \<open>
  \<^verbatim>\<open>applyMinVersionToRangeSet\<close>: keep the groups whose first comparator has a major
  version at or above the one of \<open>minVersion\<close> (the major of \<open>ANY\<close> is \<^verbatim>\<open>undefined\<close>, which
  is not at or above anything), and in the kept groups replace the version of a first
  comparator of the same major that is at or below \<open>minVersion\<close>. Reading the first
  comparator of an empty group throws. The new comparator is built from the text
  \<^verbatim>\<open>minVersion.raw\<close>, which is the text of \<open>minVersion\<close> for the versions that
  \<^verbatim>\<open>semver.minVersion\<close> returns. The constructor \<^verbatim>\<open>new semver.Comparator\<close> refuses a
  text of more than 256 characters with a \<^verbatim>\<open>TypeError\<close>; versions have no such bound
  here, so that error is not part of the function below.
\<close>

fun keepsGroup :: "SemVer \<Rightarrow> comparator list \<Rightarrow> bool" where
  "keepsGroup minVer (Cmp op v # cs) = (major v \<ge> major minVer)"
| "keepsGroup minVer _ = False"

fun alignGroup :: "SemVer \<Rightarrow> comparator list \<Rightarrow> comparator list" where
  "alignGroup minVer (Cmp op v # cs) =
     (if major v = major minVer \<and> gte minVer v then Cmp op minVer # cs else Cmp op v # cs)"
| "alignGroup minVer c = c"

definition applyMinVersionToRangeSet ::
  "comparator list list \<Rightarrow> SemVer \<Rightarrow> error + comparator list list" where
  "applyMinVersionToRangeSet s minVer =
     (if list_ex (\<lambda>c. c = []) s then Inl TypeError
      else Inr (map (alignGroup minVer) (filter (keepsGroup minVer) s)))"

text \<open>\<^verbatim>\<open>semver.minVersion(r, rangeOptions) || new semver.SemVer('*')\<close>: the text \<^verbatim>\<open>*\<close> is
  not a version, so the constructor throws when the range has no minimum.\<close>

definition minVersionOrStar :: "Range \<Rightarrow> error + SemVer" where
  "minVersionOrStar r =
     (case minVersion r of Inl e \<Rightarrow> Inl e | Inr None \<Rightarrow> Inl TypeError | Inr (Some v) \<Rightarrow> Inr v)"

text \<open>\<^verbatim>\<open>minComp1 || minComp2\<close> after the two \<^verbatim>\<open>shift()\<close>.\<close>

definition minCompOf :: "comparator list list \<Rightarrow> comparator list list \<Rightarrow> comparator list option" where
  "minCompOf sortedR1 sortedR2 =
     (case sortedR1 of h # _ \<Rightarrow> Some h
      | [] \<Rightarrow> (case sortedR2 of h # _ \<Rightarrow> Some h | [] \<Rightarrow> None))"

text \<open>The four constants computed after the two subset tests: the two minimum
  versions and the two sorted group lists.\<close>

definition sortedWithMin ::
  "Range \<Rightarrow> Range
     \<Rightarrow> error + (SemVer \<times> SemVer \<times> comparator list list \<times> comparator list list)" where
  "sortedWithMin r1 r2 =
     (case minVersionOrStar r1 of Inl e \<Rightarrow> Inl e | Inr minVersion1 \<Rightarrow>
       (case minVersionOrStar r2 of Inl e \<Rightarrow> Inl e | Inr minVersion2 \<Rightarrow>
         (case sortRangeSet (setR r1) of Inl e \<Rightarrow> Inl e | Inr sortedR1 \<Rightarrow>
           (case sortRangeSet (setR r2) of Inl e \<Rightarrow> Inl e | Inr sortedR2 \<Rightarrow>
              Inr (minVersion1, minVersion2, sortedR1, sortedR2)))))"

text \<open>The larger of the two minimum versions.\<close>

definition minSemverOf :: "SemVer \<Rightarrow> SemVer \<Rightarrow> SemVer" where
  "minSemverOf minVersion1 minVersion2 =
     (if compare minVersion1 minVersion2 = -1 then minVersion2 else minVersion1)"

text \<open>The two ranges rebuilt on the larger minimum version.\<close>

definition alignedRanges ::
  "comparator list list \<Rightarrow> comparator list list \<Rightarrow> SemVer \<Rightarrow> error + (Range \<times> Range)" where
  "alignedRanges sortedR1 sortedR2 minSemver =
     (case applyMinVersionToRangeSet sortedR1 minSemver of Inl e \<Rightarrow> Inl e | Inr set1 \<Rightarrow>
       (case applyMinVersionToRangeSet sortedR2 minSemver of Inl e \<Rightarrow> Inl e | Inr set2 \<Rightarrow>
          Inr (setToRange set1, setToRange set2)))"

text \<open>The end of the function: the groups of the range returned for the remainders are
  sorted and pushed behind the head group, and the range is rebuilt.\<close>

fun pushRest ::
  "comparator list \<Rightarrow> (error + Range) \<times> string list \<Rightarrow> (error + Range) \<times> string list" where
  "pushRest minComp (Inl e, ignoredRanges) = (Inl e, ignoredRanges)"
| "pushRest minComp (Inr newRange, ignoredRanges) =
     (case sortRangeSet (setR newRange) of
        Inl e \<Rightarrow> (Inl e, ignoredRanges)
      | Inr sortedNew \<Rightarrow> (Inr (setToRange (minComp # sortedNew)), ignoredRanges))"

text \<open>
  \<^verbatim>\<open>restrictiveRange(r1, r2, ignoredRanges, debug)\<close>. The list \<^verbatim>\<open>ignoredRanges\<close> is
  passed in and returned (the source pushes onto it); the logger is left out. The result
  is \<open>None\<close> when the recursion does not end, and otherwise the range or the error thrown,
  with the list.
\<close>

partial_function (option) restrictiveRange ::
  "Range \<Rightarrow> Range \<Rightarrow> string list \<Rightarrow> ((error + Range) \<times> string list) option" where
  "restrictiveRange r1 r2 ignoredRanges =
     (if subset r1 r2 then Some (Inr r1, ignoredRanges @ [raw r2])
      else if subset r2 r1 then Some (Inr r2, ignoredRanges @ [raw r1])
      else
        (case sortedWithMin r1 r2 of
           Inl e \<Rightarrow> Some (Inl e, ignoredRanges)
         | Inr (minVersion1, minVersion2, sortedR1, sortedR2) \<Rightarrow>
             (if \<not> eq minVersion1 minVersion2 then
                (case alignedRanges sortedR1 sortedR2 (minSemverOf minVersion1 minVersion2) of
                   Inl e \<Rightarrow> Some (Inl e, ignoredRanges)
                 | Inr (newR1, newR2) \<Rightarrow>
                     (if intersects newR1 newR2
                      then restrictiveRange newR1 newR2 ignoredRanges
                      else Some (Inl NotYetImplemented, ignoredRanges)))
              else
                (case minCompOf sortedR1 sortedR2 of
                   None \<Rightarrow> Some (Inl NotYetImplemented, ignoredRanges)
                 | Some minComp \<Rightarrow>
                     Option.bind
                       (restrictiveRange (setToRange (tl sortedR1)) (setToRange (tl sortedR2))
                          ignoredRanges)
                       (\<lambda>res. Some (pushRest minComp res))))))"

declare restrictiveRange.simps [code]

text \<open>\<^verbatim>\<open>String.prototype.trim\<close> on the blank.\<close>

definition trim :: "string \<Rightarrow> string" where
  "trim s = rev (dropWhile (\<lambda>c. c = CHR '' '') (rev (dropWhile (\<lambda>c. c = CHR '' '') s)))"

text \<open>The body of the \<^verbatim>\<open>forEach\<close> of \<^verbatim>\<open>humanizeRange\<close>: the text pushed for one group.
  The destructuring \<^verbatim>\<open>[from, to] = comps\<close> leaves \<^verbatim>\<open>from\<close> undefined on an empty
  group, and reading its value throws.\<close>

fun humanizeGroup :: "comparator list \<Rightarrow> error + string" where
  "humanizeGroup [] = Inl TypeError"
| "humanizeGroup [from] =
     (if operatorOf from = OpGe then Inr (valueText from)
      else Inr (trim (valueText from @ '' '' @ [])))"
| "humanizeGroup (from # to # others) =
     (if others = [] \<and> operatorOf from = OpGe \<and> operatorOf to = OpLt \<and>
         (case (from, to) of
            (Cmp _ lo, Cmp _ hi) \<Rightarrow> major lo + 1 = major hi
          | _ \<Rightarrow> False)
      then Inr (''^'' @ (case from of Cmp _ lo \<Rightarrow> versionText lo | ANY \<Rightarrow> []))
      else Inr (trim (valueText from @ '' '' @ valueText to)))"

fun humanizeGroups :: "comparator list list \<Rightarrow> error + string list" where
  "humanizeGroups [] = Inr []"
| "humanizeGroups (g # gs) =
     (case humanizeGroup g of
        Inl e \<Rightarrow> Inl e
      | Inr t \<Rightarrow> (case humanizeGroups gs of Inl e \<Rightarrow> Inl e | Inr ts \<Rightarrow> Inr (t # ts)))"

text \<open>\<^verbatim>\<open>humanizeRange(range?)\<close>; \<open>None\<close> is \<^verbatim>\<open>undefined\<close>.\<close>

definition humanizeRange :: "Range option \<Rightarrow> error + string" where
  "humanizeRange rangeOpt =
     (case rangeOpt of
        None \<Rightarrow> Inr ''*''
      | Some r \<Rightarrow>
          (if raw r = ''*'' then Inr ''*''
           else (case sortRangeSet (setR r) of
                   Inl e \<Rightarrow> Inl e
                 | Inr s \<Rightarrow> (case humanizeGroups s of
                               Inl e \<Rightarrow> Inl e
                             | Inr res \<Rightarrow> Inr (joinWith '' || '' res)))))"

section \<open>The aggregation (\<^verbatim>\<open>computeEnginesConstraint\<close>)\<close>

text \<open>The engines of a package of the lock file: an object from engine names to
  constraint texts, or an array of texts such as \<^verbatim>\<open>node >=12.22.0\<close>.\<close>

datatype LockPackageEngines =
    EnginesObject "string \<rightharpoonup> string"
  | EnginesArray "string list"

record LockPackage =
  engines :: LockPackageEngines

text \<open>\<^verbatim>\<open>String.prototype.includes\<close> and \<^verbatim>\<open>String.prototype.replace\<close> with a text
  pattern (the first occurrence only).\<close>

fun includesText :: "string \<Rightarrow> string \<Rightarrow> bool" where
  "includesText [] key = (key = [])"
| "includesText (c # cs) key = (prefix key (c # cs) \<or> includesText cs key)"

fun replaceFirst :: "string \<Rightarrow> string \<Rightarrow> string" where
  "replaceFirst [] key = []"
| "replaceFirst (c # cs) key =
     (if prefix key (c # cs) then drop (length key) (c # cs) else c # replaceFirst cs key)"

text \<open>\<^verbatim>\<open>getConstraintFromEngines\<close>: the names of the engines (\<^verbatim>\<open>node\<close>, \<^verbatim>\<open>npm\<close>,
  \<^verbatim>\<open>yarn\<close>) are never a key of an array.\<close>

fun getConstraintFromEngines :: "LockPackageEngines \<Rightarrow> string \<Rightarrow> string option" where
  "getConstraintFromEngines (EnginesObject obj) constraintKey = obj constraintKey"
| "getConstraintFromEngines (EnginesArray arr) constraintKey =
     (case filter (\<lambda>constraint. includesText constraint constraintKey) arr of
        [] \<Rightarrow> None
      | constraint # _ \<Rightarrow> Some (replaceFirst constraint constraintKey))"

text \<open>\<^verbatim>\<open>Range.format\<close>: the field \<^verbatim>\<open>range\<close>.\<close>

definition formatRange :: "Range \<Rightarrow> string" where
  "formatRange r = trim (joinWith ''||'' (map (\<lambda>comps. trim (groupText comps)) (setR r)))"

text \<open>
  The texts that the packages declare are read by \<^verbatim>\<open>new semver.Range(text)\<close>, with
  the whole grammar of ranges. The aggregation takes this reader as a parameter
  \<open>newRange\<close>, which answers \<open>None\<close> where the constructor throws.
  \<^verbatim>\<open>semver.validRange\<close> returns the formatted text of the range read, \<^verbatim>\<open>*\<close> when
  that text is empty, and \<^verbatim>\<open>null\<close> when the constructor throws.
\<close>

definition validRange :: "(string \<Rightarrow> Range option) \<Rightarrow> string \<Rightarrow> string option" where
  "validRange newRange constraint =
     (case newRange constraint of
        None \<Rightarrow> None
      | Some r \<Rightarrow> Some (if formatRange r = [] then ''*'' else formatRange r))"

text \<open>
  The loop of \<^verbatim>\<open>computeEnginesConstraint\<close> over the packages, on the two variables
  \<^verbatim>\<open>mrr\<close> and \<^verbatim>\<open>ignoredRanges\<close>. \<^verbatim>\<open>mrr\<close> is an optional range, since the source
  tests \<^verbatim>\<open>!mrr\<close>. An error thrown by the reducer or by the constructor ends the loop;
  the result is \<open>None\<close> when the reducer does not return.
\<close>

fun constraintLoop ::
  "(string \<Rightarrow> Range option) \<Rightarrow> string \<Rightarrow> (string \<times> LockPackage) list
     \<Rightarrow> Range option \<Rightarrow> string list \<Rightarrow> (error + Range option \<times> string list) option" where
  "constraintLoop newRange constraintKey [] mrr ignoredRanges = Some (Inr (mrr, ignoredRanges))"
| "constraintLoop newRange constraintKey ((pkgName, pkg) # packages) mrr ignoredRanges =
     (case getConstraintFromEngines (engines pkg) constraintKey of
        None \<Rightarrow> constraintLoop newRange constraintKey packages mrr ignoredRanges
      | Some constraint \<Rightarrow>
          (if constraint = [] then
             constraintLoop newRange constraintKey packages mrr ignoredRanges
           else
             (case validRange newRange constraint of
                None \<Rightarrow> constraintLoop newRange constraintKey packages mrr ignoredRanges
              | Some rawValidRange \<Rightarrow>
                  (if rawValidRange \<in> set ignoredRanges then
                     constraintLoop newRange constraintKey packages mrr ignoredRanges
                   else
                     (case newRange rawValidRange of
                        None \<Rightarrow> Some (Inl TypeError)
                      | Some range' \<Rightarrow>
                          (case mrr of
                             None \<Rightarrow>
                               constraintLoop newRange constraintKey packages (Some range')
                                 ignoredRanges
                           | Some m \<Rightarrow>
                               (case restrictiveRange m range' ignoredRanges of
                                  None \<Rightarrow> None
                                | Some (Inl e, ignoredRanges') \<Rightarrow> Some (Inl e)
                                | Some (Inr newRestrictiveRange, ignoredRanges') \<Rightarrow>
                                    constraintLoop newRange constraintKey packages
                                      (Some (if raw m \<noteq> raw newRestrictiveRange
                                             then newRestrictiveRange else m))
                                      ignoredRanges')))))))"

text \<open>\<^verbatim>\<open>computeEnginesConstraint\<close>: the loop from \<^verbatim>\<open>new semver.Range('*')\<close> and the
  empty list, and the value of \<^verbatim>\<open>mrr\<close> at the end.\<close>

definition computeEnginesConstraint ::
  "(string \<Rightarrow> Range option) \<Rightarrow> (string \<times> LockPackage) list \<Rightarrow> string
     \<Rightarrow> (error + Range option) option" where
  "computeEnginesConstraint newRange packages constraintKey =
     map_option (map_sum id fst)
       (constraintLoop newRange constraintKey packages (Some starRange) [])"

subsection \<open>A reader for canonical range texts\<close>

text \<open>
  \<open>newRangeCanonical\<close> is \<^verbatim>\<open>new semver.Range(text)\<close> on the texts that \<^verbatim>\<open>Range.format\<close>
  prints: groups separated by \<^verbatim>\<open>||\<close>, comparators separated by blanks, a comparator being
  one of \<^verbatim>\<open><\<close>, \<^verbatim>\<open><=\<close>, \<^verbatim>\<open>>\<close>, \<^verbatim>\<open>>=\<close> or nothing followed by
  \<^verbatim>\<open>major.minor.patch\<close> and an optional \<^verbatim>\<open>-prerelease\<close>; the star \<^verbatim>\<open>*\<close> is read as well.
  It stands for the constructor in the concrete runs below. It answers \<open>None\<close> on every
  other text, among them the abbreviations that semver expands (caret, tilde, hyphen and
  x-ranges), so it is used only on canonical texts and on a text that semver rejects too.
\<close>

definition isDigit :: "char \<Rightarrow> bool" where
  "isDigit c = (c \<in> set ''0123456789'')"

definition isIdentChar :: "char \<Rightarrow> bool" where
  "isIdentChar c =
     (c \<in> set ''0123456789abcdefghijklmnopqrstuvwxyzABCDEFGHIJKLMNOPQRSTUVWXYZ-'')"

definition digitValue :: "char \<Rightarrow> nat" where
  "digitValue c = length (takeWhile (\<lambda>d. d \<noteq> c) ''0123456789'')"

fun digitsValue :: "string \<Rightarrow> nat \<Rightarrow> nat" where
  "digitsValue [] n = n"
| "digitsValue (c # cs) n = digitsValue cs (10 * n + digitValue c)"

definition parseNumeric :: "string \<Rightarrow> nat option" where
  "parseNumeric s =
     (if s \<noteq> [] \<and> list_all isDigit s \<and> (s = ''0'' \<or> hd s \<noteq> CHR ''0'')
      then Some (digitsValue s 0) else None)"

definition parseIdent :: "string \<Rightarrow> ident option" where
  "parseIdent s =
     (if s = [] then None
      else if list_all isDigit s then map_option Num (parseNumeric s)
      else if list_all isIdentChar s then Some (Str s)
      else None)"

text \<open>\<^verbatim>\<open>String.prototype.split\<close> on one character, and on \<^verbatim>\<open>||\<close>.\<close>

fun splitOn :: "char \<Rightarrow> string \<Rightarrow> string list" where
  "splitOn sep [] = [[]]"
| "splitOn sep (c # cs) =
     (if c = sep then [] # splitOn sep cs
      else (case splitOn sep cs of h # t \<Rightarrow> (c # h) # t | [] \<Rightarrow> [[c]]))"

fun splitBars :: "string \<Rightarrow> string list" where
  "splitBars (a # b # cs) =
     (if a = CHR ''|'' \<and> b = CHR ''|'' then [] # splitBars cs
      else (case splitBars (b # cs) of h # t \<Rightarrow> (a # h) # t | [] \<Rightarrow> [[a]]))"
| "splitBars s = [s]"

fun allSome :: "'a option list \<Rightarrow> 'a list option" where
  "allSome [] = Some []"
| "allSome (None # xs) = None"
| "allSome (Some x # xs) = map_option ((#) x) (allSome xs)"

definition parseVersionText :: "string \<Rightarrow> SemVer option" where
  "parseVersionText s =
     (let core = takeWhile (\<lambda>c. c \<noteq> CHR ''-'') s;
          pre = drop (length core) s
      in case allSome (map parseNumeric (splitOn CHR ''.'' core)) of
           Some [a, b, c] \<Rightarrow>
             (if pre = [] then Some (mkVer a b c [])
              else (case allSome (map parseIdent (splitOn CHR ''.'' (tl pre))) of
                      Some ids \<Rightarrow> Some (mkVer a b c ids)
                    | None \<Rightarrow> None))
         | _ \<Rightarrow> None)"

definition parseComparatorText :: "string \<Rightarrow> comparator option" where
  "parseComparatorText s =
     (if s = ''*'' then Some ANY
      else if prefix ''>='' s then map_option (Cmp OpGe) (parseVersionText (drop 2 s))
      else if prefix ''<='' s then map_option (Cmp OpLe) (parseVersionText (drop 2 s))
      else if prefix ''>'' s then map_option (Cmp OpGt) (parseVersionText (drop 1 s))
      else if prefix ''<'' s then map_option (Cmp OpLt) (parseVersionText (drop 1 s))
      else map_option (Cmp OpEq) (parseVersionText s))"

definition parseGroupText :: "string \<Rightarrow> comparator list option" where
  "parseGroupText s =
     allSome (map parseComparatorText (filter (\<lambda>t. t \<noteq> []) (splitOn CHR '' '' s)))"

definition newRangeCanonical :: "string \<Rightarrow> Range option" where
  "newRangeCanonical text =
     (case allSome (map parseGroupText (splitBars text)) of
        None \<Rightarrow> None
      | Some groups \<Rightarrow> Some \<lparr>raw = text, setR = newRangeSet groups\<rparr>)"

section \<open>Ranges and package lists used in the concrete runs\<close>

text \<open>The two ranges of the test \<^verbatim>\<open>w/ r1 subset of r2\<close>: \<^verbatim>\<open>^14.17.0 || ^16.10.0\<close> and
  \<^verbatim>\<open>^14.0.0 || ^16.0.0\<close>, with the groups that semver expands the carets to.\<close>

definition caretGroup :: "nat \<Rightarrow> nat \<Rightarrow> nat \<Rightarrow> comparator list" where
  "caretGroup a b c = [Cmp OpGe (mkVer a b c []), Cmp OpLt (mkVer (a + 1) 0 0 [Num 0])]"

definition rangeNarrow :: Range where
  "rangeNarrow = \<lparr>raw = ''^14.17.0 || ^16.10.0'',
                   setR = [caretGroup 14 17 0, caretGroup 16 10 0]\<rparr>"

definition rangeWide :: Range where
  "rangeWide = \<lparr>raw = ''^14.0.0 || ^16.0.0'',
                 setR = [caretGroup 14 0 0, caretGroup 16 0 0]\<rparr>"

text \<open>A package that declares the constraint \<open>c\<close> for the engine \<^verbatim>\<open>node\<close>.\<close>

definition nodePackage :: "string \<Rightarrow> string \<Rightarrow> string \<times> LockPackage" where
  "nodePackage pkgName c = (pkgName, \<lparr>engines = EnginesObject [''node'' \<mapsto> c]\<rparr>)"

text \<open>The ranges \<^verbatim>\<open>>=12.22.0\<close> and \<^verbatim>\<open>>=14.17.0\<close> of the test
  \<^verbatim>\<open>should compute mrr & skip invalid range\<close>.\<close>

definition range_12_22 :: Range where
  "range_12_22 = \<lparr>raw = ''>=12.22.0'', setR = [[Cmp OpGe (mkVer 12 22 0 [])]]\<rparr>"

definition range_14_17 :: Range where
  "range_14_17 = \<lparr>raw = ''>=14.17.0'', setR = [[Cmp OpGe (mkVer 14 17 0 [])]]\<rparr>"

definition skipScenario :: "(string \<times> LockPackage) list" where
  "skipScenario =
     [nodePackage ''foo'' ''>=12.22.0'', nodePackage ''bar'' ''>=a.b.c'',
      nodePackage ''lorem'' ''>=14.17.0'']"

text \<open>Two unions of caret ranges: \<^verbatim>\<open>^1.0.0 || ^3.0.0\<close> and \<^verbatim>\<open>^1.0.0 || ^5.0.0\<close>, in the
  canonical text that \<^verbatim>\<open>semver.validRange\<close> returns for them.\<close>

definition range_1_3 :: Range where
  "range_1_3 = \<lparr>raw = ''>=1.0.0 <2.0.0-0||>=3.0.0 <4.0.0-0'',
                 setR = [caretGroup 1 0 0, caretGroup 3 0 0]\<rparr>"

definition range_1_5 :: Range where
  "range_1_5 = \<lparr>raw = ''>=1.0.0 <2.0.0-0||>=5.0.0 <6.0.0-0'',
                 setR = [caretGroup 1 0 0, caretGroup 5 0 0]\<rparr>"

text \<open>The range \<^verbatim>\<open>^2.0.0-beta\<close>, in canonical text: its lower bound is a prerelease.\<close>

definition range_beta :: Range where
  "range_beta = \<lparr>raw = ''>=2.0.0-beta <3.0.0-0'',
                  setR = [[Cmp OpGe (mkVer 2 0 0 [Str ''beta'']),
                           Cmp OpLt (mkVer 3 0 0 [Num 0])]]\<rparr>"

text \<open>The range \<^verbatim>\<open><2.0.0\<close>, and the range of the text \<^verbatim>\<open>||\<close>.\<close>

definition range_lt_2 :: Range where
  "range_lt_2 = \<lparr>raw = ''<2.0.0'', setR = [[Cmp OpLt (mkVer 2 0 0 [])]]\<rparr>"

definition range_bars :: Range where
  "range_bars = \<lparr>raw = ''||'', setR = [[ANY]]\<rparr>"



definition rangeSetTest :: "comparator list list \<Rightarrow> SemVer \<Rightarrow> bool" where
  "rangeSetTest s v = list_ex (\<lambda>g. testSet g v) s"


text \<open>The range that the reducer returns for \<^verbatim>\<open><2.0.0\<close> and the star: its text is
  \<^verbatim>\<open><2.0.0||\<close>, which the constructor reads as the star.\<close>

definition range_lt_2_bars :: Range where
  "range_lt_2_bars = \<lparr>raw = ''<2.0.0||'', setR = [[ANY]]\<rparr>"

text \<open>The disjoint caret ranges \<^verbatim>\<open>^1.0.0\<close> and \<^verbatim>\<open>^3.0.0\<close>.\<close>

definition range_caret_1 :: Range where
  "range_caret_1 = \<lparr>raw = ''>=1.0.0 <2.0.0-0'', setR = [caretGroup 1 0 0]\<rparr>"

definition range_caret_3 :: Range where
  "range_caret_3 = \<lparr>raw = ''>=3.0.0 <4.0.0-0'', setR = [caretGroup 3 0 0]\<rparr>"

text \<open>The ranges \<^verbatim>\<open>>=1.0.0 <2.0.0-beta\<close> and \<^verbatim>\<open>>=1.0.0 <3.0.0\<close>: the same minimum version,
  and each admits a version that the other refuses (2.0.0-alpha, 2.5.0). The range that
  the reducer returns for them has the text \<^verbatim>\<open>>=1.0.0 <2.0.0-beta||\<close>.\<close>

definition range_below_beta :: Range where
  "range_below_beta = \<lparr>raw = ''>=1.0.0 <2.0.0-beta'',
     setR = [[Cmp OpGe (mkVer 1 0 0 []), Cmp OpLt (mkVer 2 0 0 [Str ''beta''])]]\<rparr>"

definition range_below_3 :: Range where
  "range_below_3 = \<lparr>raw = ''>=1.0.0 <3.0.0'',
     setR = [[Cmp OpGe (mkVer 1 0 0 []), Cmp OpLt (mkVer 3 0 0 [])]]\<rparr>"

definition range_below_beta_bars :: Range where
  "range_below_beta_bars = \<lparr>raw = ''>=1.0.0 <2.0.0-beta||'', setR = [[ANY]]\<rparr>"

section \<open>Properties\<close>

subsection \<open>Subset tests\<close>

lemma subsetInner_member: "g \<in> set ds \<Longrightarrow> fst (subsetInner g ds saw)"
proof (induction ds arbitrary: saw)
  case Nil
  then show ?case by simp
next
  case (Cons d ds)
  show ?case
  proof (cases "d = g")
    case True
    then show ?thesis by (simp add: simpleSubset_def)
  next
    case False
    with Cons.prems have "g \<in> set ds" by simp
    then show ?thesis
      using Cons.IH by (cases "simpleSubset g d") (auto split: bool.splits)
  qed
qed

lemma subsetOuter_member: "set ss \<subseteq> set ds \<Longrightarrow> subsetOuter ss ds saw"
proof (induction ss arbitrary: saw)
  case Nil
  then show ?case by simp
next
  case (Cons s ss saw)
  have "fst (subsetInner s ds saw)"
    using Cons.prems subsetInner_member by simp
  then obtain saw' where "subsetInner s ds saw = (True, saw')"
    by (cases "subsetInner s ds saw") auto
  moreover have "subsetOuter ss ds saw'"
    using Cons by simp
  ultimately show ?case by simp
qed

text \<open>Every range is a subset of itself: each group finds itself in the other list.
  This covers the first test \<^verbatim>\<open>sub === dom\<close> of \<^verbatim>\<open>subset\<close>.\<close>

lemma subset_refl: "subset r r"
  by (simp add: subset_def subsetOuter_member)

subsection \<open>The subset short-circuit of the reducer\<close>

text \<open>
  The two first tests of the reducer: when \<^verbatim>\<open>semver.subset(a, b)\<close> answers yes,
  \<open>restrictiveRange a b\<close> returns \<open>a\<close> and pushes the raw text of \<open>b\<close> onto the ignored
  ranges; when it does not but \<^verbatim>\<open>semver.subset(b, a)\<close> does, it returns \<open>b\<close> and pushes the
  raw text of \<open>a\<close>. In particular \<open>restrictiveRange r r\<close> returns \<open>r\<close>, for every range \<open>r\<close>.
  The second lemma is the test \<^verbatim>\<open>w/ r1 subset of r2\<close> of the repository, in both orders.
\<close>

lemma restrictiveRange_short_circuit:
  "(subset a b \<longrightarrow> restrictiveRange a b ign = Some (Inr a, ign @ [raw b])) \<and>
   (\<not> subset a b \<and> subset b a \<longrightarrow> restrictiveRange a b ign = Some (Inr b, ign @ [raw a])) \<and>
   restrictiveRange r r ign = Some (Inr r, ign @ [raw r])"
proof (intro conjI impI)
  assume "subset a b"
  then show "restrictiveRange a b ign = Some (Inr a, ign @ [raw b])"
    by (subst restrictiveRange.simps) simp
next
  assume "\<not> subset a b \<and> subset b a"
  then show "restrictiveRange a b ign = Some (Inr b, ign @ [raw a])"
    by (subst restrictiveRange.simps) simp
next
  show "restrictiveRange r r ign = Some (Inr r, ign @ [raw r])"
    by (subst restrictiveRange.simps) (simp add: subset_refl)
qed

lemma restrictiveRange_short_circuit_test:
  "subset rangeNarrow rangeWide \<and>
   restrictiveRange rangeNarrow rangeWide [] = Some (Inr rangeNarrow, [''^14.0.0 || ^16.0.0'']) \<and>
   \<not> subset rangeWide rangeNarrow \<and>
   restrictiveRange rangeWide rangeNarrow [] = Some (Inr rangeNarrow, [''^14.0.0 || ^16.0.0''])"
proof -
  have sub: "subset rangeNarrow rangeWide" by code_simp
  have nsub: "\<not> subset rangeWide rangeNarrow" by code_simp
  have raw: "raw rangeWide = ''^14.0.0 || ^16.0.0''" by (simp add: rangeWide_def)
  show ?thesis
    using sub nsub raw
      restrictiveRange_short_circuit [of rangeNarrow rangeWide "[]"]
      restrictiveRange_short_circuit [of rangeWide rangeNarrow "[]"]
    by simp
qed

subsection \<open>The humanizer\<close>

text \<open>
  \<open>humanizeRange\<close> returns the text \<^verbatim>\<open>*\<close> for the absent range and for every range whose
  raw text is \<^verbatim>\<open>*\<close>, whatever its groups: the test of the source is on the raw text.
\<close>

lemma humanizeRange_star_text:
  "humanizeRange None = Inr ''*'' \<and>
   humanizeRange (Some starRange) = Inr ''*'' \<and>
   humanizeRange (Some \<lparr>raw = ''*'', setR = s\<rparr>) = Inr ''*''"
  by (simp add: humanizeRange_def starRange_def)

subsection \<open>Constraints that do not parse\<close>

lemma constraintLoop_skip_invalid:
  assumes "getConstraintFromEngines (engines pkg) key = Some c"
    and "validRange newRange c = None"
  shows "constraintLoop newRange key (xs @ (n, pkg) # ys) mrr ign =
         constraintLoop newRange key (xs @ ys) mrr ign"
proof (induction xs arbitrary: mrr ign)
  case Nil
  show ?case using assms by simp
next
  case (Cons x xs)
  obtain m p where x: "x = (m, p)" by (cases x)
  show ?case unfolding x
    by (simp add: Cons.IH split: option.splits sum.splits prod.splits)
qed

lemma reduce_star_12_22:
  "restrictiveRange starRange range_12_22 [] = Some (Inr range_12_22, [''*''])"
  by code_simp

lemma reduce_12_22_14_17:
  "restrictiveRange range_12_22 range_14_17 [''*''] =
     Some (Inr range_14_17, [''*'', ''>=12.22.0''])"
  by code_simp

lemma formatRange_12_22: "formatRange range_12_22 = ''>=12.22.0''"
  by code_simp

lemma formatRange_14_17: "formatRange range_14_17 = ''>=14.17.0''"
  by code_simp

lemma skipScenario_raws:
  "raw starRange \<noteq> raw range_12_22" "raw range_12_22 \<noteq> raw range_14_17"
  by (simp_all add: starRange_def range_12_22_def range_14_17_def)

lemma skipScenario_result:
  assumes "newRange ''>=12.22.0'' = Some range_12_22"
    and "newRange ''>=a.b.c'' = None"
    and "newRange ''>=14.17.0'' = Some range_14_17"
  shows "computeEnginesConstraint newRange skipScenario ''node'' = Some (Inr (Some range_14_17))"
  using assms
  by (simp add: computeEnginesConstraint_def skipScenario_def nodePackage_def validRange_def
      formatRange_12_22 formatRange_14_17 reduce_star_12_22 reduce_12_22_14_17
      skipScenario_raws)

text \<open>
  Claim C9. A package whose declared constraint does not parse (\<^verbatim>\<open>semver.validRange\<close>
  answers \<^verbatim>\<open>null\<close>) is passed over: the loop over a package list that holds it, at any
  position and from any state, gives what it gives on the list without it, so nothing
  is raised for it and the accumulator does not see it. In particular, when the
  constructor reads \<^verbatim>\<open>>=12.22.0\<close> and \<^verbatim>\<open>>=14.17.0\<close> as such and rejects \<^verbatim>\<open>>=a.b.c\<close>,
  the packages \<^verbatim>\<open>foo\<close>, \<^verbatim>\<open>bar\<close>, \<^verbatim>\<open>lorem\<close> of the test give the range \<^verbatim>\<open>>=14.17.0\<close>.
\<close>

theorem invalid_constraints_skipped:
  "(getConstraintFromEngines (engines pkg) key = Some c \<and> validRange newRange c = None \<longrightarrow>
      constraintLoop newRange key (xs @ (n, pkg) # ys) mrr ign =
      constraintLoop newRange key (xs @ ys) mrr ign) \<and>
   (newRange ''>=12.22.0'' = Some range_12_22 \<and> newRange ''>=a.b.c'' = None \<and>
    newRange ''>=14.17.0'' = Some range_14_17 \<longrightarrow>
      computeEnginesConstraint newRange skipScenario ''node'' = Some (Inr (Some range_14_17)))"
  using constraintLoop_skip_invalid skipScenario_result by blast

theorem invalid_constraints_skipped_witness:
  "newRangeCanonical ''>=12.22.0'' = Some range_12_22 \<and>
   newRangeCanonical ''>=a.b.c'' = None \<and>
   newRangeCanonical ''>=14.17.0'' = Some range_14_17 \<and>
   getConstraintFromEngines (engines (snd (nodePackage ''bar'' ''>=a.b.c''))) ''node''
     = Some ''>=a.b.c'' \<and>
   validRange newRangeCanonical ''>=a.b.c'' = None \<and>
   constraintLoop newRangeCanonical ''node''
     ([nodePackage ''foo'' ''>=12.22.0''] @ (''bar'', snd (nodePackage ''bar'' ''>=a.b.c'')) #
      [nodePackage ''lorem'' ''>=14.17.0'']) (Some starRange) [] =
   constraintLoop newRangeCanonical ''node''
     ([nodePackage ''foo'' ''>=12.22.0''] @ [nodePackage ''lorem'' ''>=14.17.0''])
     (Some starRange) [] \<and>
   computeEnginesConstraint newRangeCanonical skipScenario ''node''
     = Some (Inr (Some range_14_17))"
proof -
  have p1: "newRangeCanonical ''>=12.22.0'' = Some range_12_22" by code_simp
  have p2: "newRangeCanonical ''>=a.b.c'' = None" by code_simp
  have p3: "newRangeCanonical ''>=14.17.0'' = Some range_14_17" by code_simp
  have g: "getConstraintFromEngines (engines (snd (nodePackage ''bar'' ''>=a.b.c''))) ''node''
     = Some ''>=a.b.c''"
    by (simp add: nodePackage_def)
  have v: "validRange newRangeCanonical ''>=a.b.c'' = None"
    by (simp add: validRange_def p2)
  show ?thesis
    using p1 p2 p3 g v
      invalid_constraints_skipped [of "snd (nodePackage ''bar'' ''>=a.b.c'')" "''node''"
        "''>=a.b.c''" newRangeCanonical "[nodePackage ''foo'' ''>=12.22.0'']" "''bar''"
        "[nodePackage ''lorem'' ''>=14.17.0'']" "Some starRange" "[]"]
    by simp
qed

subsection \<open>Caret groups in the humanizer\<close>

lemma showNat_0: "showNat 0 = ''0''"
  by (simp add: showNat.simps digitChar_def)

lemma humanizeGroup_caret:
  "major hi = major lo + 1 \<Longrightarrow>
   humanizeGroup [Cmp OpGe lo, Cmp OpLt hi] = Inr (''^'' @ versionText lo)"
  by simp

lemma humanizeGroups_map: "humanizeGroups s = Inr ts \<Longrightarrow> map humanizeGroup s = map Inr ts"
  by (induction s arbitrary: ts) (auto split: sum.splits)

lemma humanizeRange_join:
  "raw r \<noteq> ''*'' \<Longrightarrow> sortRangeSet (setR r) = Inr s \<Longrightarrow> humanizeGroups s = Inr ts \<Longrightarrow>
   humanizeRange (Some r) = Inr (joinWith '' || '' ts)"
  by (simp add: humanizeRange_def)

text \<open>The range of the text \<^verbatim>\<open>>=m.0.0 <(m+1).0.0-0\<close>, for a major version above 0.\<close>

lemma setToRange_caret:
  assumes "0 < m"
  shows "setToRange [caretGroup m 0 0] =
     \<lparr>raw = ''>='' @ showNat m @ ''.0.0 <'' @ showNat (m + 1) @ ''.0.0-0'',
      setR = [caretGroup m 0 0]\<rparr>"
  using assms
  by (simp add: setToRange_def setText_def groupText_def versionText_def showNat_0
      newRangeSet_def parseRange_def caretGroup_def replaceGTE0_def isNullSet_def Let_def)

lemma humanizeRange_caret:
  assumes "0 < m"
  shows "humanizeRange (Some (setToRange [caretGroup m 0 0])) = Inr (''^'' @ showNat m @ ''.0.0'')"
  unfolding setToRange_caret [OF assms]
  by (simp add: humanizeRange_def sortRangeSet_def caretGroup_def versionText_def showNat_0)

text \<open>
  Claim C7, as stated, fails for the major version 0: the constructor reads the
  comparator \<^verbatim>\<open>>=0.0.0\<close> of the text \<^verbatim>\<open>>=0.0.0 <1.0.0-0\<close> as the star and deletes it, the
  range keeps the single comparator \<^verbatim>\<open><1.0.0-0\<close>, and the humanizer prints that
  comparator, not \<^verbatim>\<open>^0.0.0\<close>.
\<close>

theorem humanizeRange_caret_zero_counterexample:
  "raw (setToRange [caretGroup 0 0 0]) = ''>=0.0.0 <1.0.0-0'' \<and>
   newRangeCanonical ''>=0.0.0 <1.0.0-0'' = Some (setToRange [caretGroup 0 0 0]) \<and>
   setR (setToRange [caretGroup 0 0 0]) = [[Cmp OpLt (mkVer 1 0 0 [Num 0])]] \<and>
   humanizeRange (Some (setToRange [caretGroup 0 0 0])) = Inr ''<1.0.0-0'' \<and>
   humanizeRange (Some (setToRange [caretGroup 0 0 0])) \<noteq> Inr ''^0.0.0''"
proof -
  have 1: "raw (setToRange [caretGroup 0 0 0]) = ''>=0.0.0 <1.0.0-0''" by code_simp
  have 2: "newRangeCanonical ''>=0.0.0 <1.0.0-0'' = Some (setToRange [caretGroup 0 0 0])"
    by code_simp
  have 3: "setR (setToRange [caretGroup 0 0 0]) = [[Cmp OpLt (mkVer 1 0 0 [Num 0])]]"
    by code_simp
  have 4: "humanizeRange (Some (setToRange [caretGroup 0 0 0])) = Inr ''<1.0.0-0''"
    by code_simp
  show ?thesis using 1 2 3 4 by simp
qed

text \<open>
  Claim C7, amended. A group of exactly two comparators, the first with \<^verbatim>\<open>>=\<close>, the
  second with \<^verbatim>\<open><\<close>, the major version of the second being that of the first plus 1, is
  printed as \<^verbatim>\<open>^\<close> followed by the version of the first; the text that \<open>humanizeRange\<close>
  returns for a range whose raw text is not \<^verbatim>\<open>*\<close> is the texts of its sorted groups
  joined by \<^verbatim>\<open> || \<close>. In particular, for every major version \<open>m\<close> above 0, the range of
  the text \<^verbatim>\<open>>=m.0.0 <(m+1).0.0-0\<close> is printed as \<^verbatim>\<open>^m.0.0\<close>.
\<close>

theorem humanizeRange_caret_groups:
  "(major hi = major lo + 1 \<longrightarrow>
      humanizeGroup [Cmp OpGe lo, Cmp OpLt hi] = Inr (''^'' @ versionText lo)) \<and>
   (raw r \<noteq> ''*'' \<and> sortRangeSet (setR r) = Inr s \<and> humanizeGroups s = Inr ts \<longrightarrow>
      humanizeRange (Some r) = Inr (joinWith '' || '' ts) \<and>
      map humanizeGroup s = map Inr ts) \<and>
   (0 < m \<longrightarrow>
      raw (setToRange [caretGroup m 0 0])
        = ''>='' @ showNat m @ ''.0.0 <'' @ showNat (m + 1) @ ''.0.0-0'' \<and>
      humanizeRange (Some (setToRange [caretGroup m 0 0])) = Inr (''^'' @ showNat m @ ''.0.0''))"
proof (intro conjI impI)
  assume "major hi = major lo + 1"
  then show "humanizeGroup [Cmp OpGe lo, Cmp OpLt hi] = Inr (''^'' @ versionText lo)"
    by (rule humanizeGroup_caret)
next
  assume a: "raw r \<noteq> ''*'' \<and> sortRangeSet (setR r) = Inr s \<and> humanizeGroups s = Inr ts"
  then show "humanizeRange (Some r) = Inr (joinWith '' || '' ts)"
    by (simp add: humanizeRange_join)
  from a show "map humanizeGroup s = map Inr ts"
    by (simp add: humanizeGroups_map)
next
  assume m: "0 < m"
  then show "raw (setToRange [caretGroup m 0 0])
        = ''>='' @ showNat m @ ''.0.0 <'' @ showNat (m + 1) @ ''.0.0-0''"
    by (simp add: setToRange_caret)
  from m show "humanizeRange (Some (setToRange [caretGroup m 0 0]))
        = Inr (''^'' @ showNat m @ ''.0.0'')"
    by (rule humanizeRange_caret)
qed

theorem humanizeRange_caret_groups_witness:
  "humanizeGroup [Cmp OpGe (mkVer 14 17 0 []), Cmp OpLt (mkVer 15 0 0 [Num 0])]
     = Inr ''^14.17.0'' \<and>
   raw rangeNarrow \<noteq> ''*'' \<and>
   sortRangeSet (setR rangeNarrow) = Inr [caretGroup 14 17 0, caretGroup 16 10 0] \<and>
   humanizeGroups [caretGroup 14 17 0, caretGroup 16 10 0] = Inr [''^14.17.0'', ''^16.10.0''] \<and>
   humanizeRange (Some rangeNarrow) = Inr ''^14.17.0 || ^16.10.0'' \<and>
   raw (setToRange [caretGroup 16 0 0]) = ''>=16.0.0 <17.0.0-0'' \<and>
   humanizeRange (Some (setToRange [caretGroup 16 0 0])) = Inr ''^16.0.0''"
proof -
  have v: "versionText (mkVer 14 17 0 []) = ''14.17.0''" by code_simp
  have n: "showNat 16 = ''16''" "showNat (16 + 1) = ''17''" by code_simp+
  have r: "raw rangeNarrow \<noteq> ''*''" by (simp add: rangeNarrow_def)
  have s: "sortRangeSet (setR rangeNarrow) = Inr [caretGroup 14 17 0, caretGroup 16 10 0]"
    by code_simp
  have g: "humanizeGroups [caretGroup 14 17 0, caretGroup 16 10 0]
             = Inr [''^14.17.0'', ''^16.10.0'']"
    by code_simp
  show ?thesis
    using v n r s g
      humanizeRange_caret_groups [of "mkVer 15 0 0 [Num 0]" "mkVer 14 17 0 []" rangeNarrow
        "[caretGroup 14 17 0, caretGroup 16 10 0]" "[''^14.17.0'', ''^16.10.0'']" 16]
    by simp
qed

subsection \<open>A dependency that widens the aggregate\<close>

text \<open>
  Claim C3 asks that one more dependency never widens the aggregate. The code breaks it
  on caret ranges: after a package declaring \<^verbatim>\<open>^1.0.0 || ^3.0.0\<close> the aggregate is that
  range; a second package declaring \<^verbatim>\<open>^1.0.0 || ^5.0.0\<close> turns it into
  \<^verbatim>\<open>>=1.0.0 <2.0.0-0||>=5.0.0 <6.0.0-0\<close>, which admits the version 5.1.0 that the aggregate
  before did not admit, and which \<^verbatim>\<open>semver.subset\<close> does not find inside it. (The two
  minimum versions are equal, the head group of the first range is taken, and the
  remainders \<^verbatim>\<open>^3.0.0\<close> and \<^verbatim>\<open>^5.0.0\<close> are realigned to 5.0.0, where the first one has
  no group left and is rebuilt from the empty text, that is as the star.)
\<close>

theorem aggregation_widens_at_caret_unions:
  "computeEnginesConstraint newRangeCanonical
     [nodePackage ''a'' ''>=1.0.0 <2.0.0-0||>=3.0.0 <4.0.0-0''] ''node''
     = Some (Inr (Some range_1_3)) \<and>
   computeEnginesConstraint newRangeCanonical
     [nodePackage ''a'' ''>=1.0.0 <2.0.0-0||>=3.0.0 <4.0.0-0'',
      nodePackage ''b'' ''>=1.0.0 <2.0.0-0||>=5.0.0 <6.0.0-0''] ''node''
     = Some (Inr (Some range_1_5)) \<and>
   rangeTest range_1_5 (mkVer 5 1 0 []) \<and>
   \<not> rangeTest range_1_3 (mkVer 5 1 0 []) \<and>
   \<not> subset range_1_5 range_1_3"
proof -
  have 1: "computeEnginesConstraint newRangeCanonical
     [nodePackage ''a'' ''>=1.0.0 <2.0.0-0||>=3.0.0 <4.0.0-0''] ''node''
     = Some (Inr (Some range_1_3))"
    by code_simp
  have 2: "computeEnginesConstraint newRangeCanonical
     [nodePackage ''a'' ''>=1.0.0 <2.0.0-0||>=3.0.0 <4.0.0-0'',
      nodePackage ''b'' ''>=1.0.0 <2.0.0-0||>=5.0.0 <6.0.0-0''] ''node''
     = Some (Inr (Some range_1_5))"
    by code_simp
  have 3: "rangeTest range_1_5 (mkVer 5 1 0 [])" by code_simp
  have 4: "\<not> rangeTest range_1_3 (mkVer 5 1 0 [])" by code_simp
  have 5: "\<not> subset range_1_5 range_1_3" by code_simp
  show ?thesis using 1 2 3 4 5 by simp
qed

subsection \<open>A recursion that does not end\<close>

lemma beta_not_subset: "\<not> subset (setToRange []) range_beta" "\<not> subset range_beta (setToRange [])"
  by code_simp+

lemma beta_sortedWithMin:
  "sortedWithMin (setToRange []) range_beta
     = Inr (mkVer 0 0 0 [], mkVer 2 0 0 [Str ''beta''], [[ANY]], setR range_beta)"
  by code_simp

lemma beta_not_eq: "\<not> eq (mkVer 0 0 0 []) (mkVer 2 0 0 [Str ''beta''])"
  by code_simp

lemma beta_aligned:
  "alignedRanges [[ANY]] (setR range_beta)
     (minSemverOf (mkVer 0 0 0 []) (mkVer 2 0 0 [Str ''beta'']))
     = Inr (setToRange [], range_beta)"
  by code_simp

lemma beta_intersects: "intersects (setToRange []) range_beta"
  by code_simp

text \<open>On the range of the empty text and \<^verbatim>\<open>^2.0.0-beta\<close> the reducer calls itself on
  the same two ranges, so no call on them returns.\<close>

lemma beta_never_returns:
  "restrictiveRange r1 r2 ign = Some y \<Longrightarrow> \<not> (r1 = setToRange [] \<and> r2 = range_beta)"
  apply (erule restrictiveRange.raw_induct
      [rotated, where P = "\<lambda>r1 r2 ign y. \<not> (r1 = setToRange [] \<and> r2 = range_beta)"])
  apply (auto simp: beta_not_subset beta_sortedWithMin beta_not_eq beta_aligned beta_intersects)
  apply blast
  done

lemma beta_diverges: "restrictiveRange (setToRange []) range_beta ign = None"
  using beta_never_returns [of "setToRange []" range_beta ign]
  by (cases "restrictiveRange (setToRange []) range_beta ign") auto

lemma star_beta_first_step:
  "\<not> subset starRange range_beta" "\<not> subset range_beta starRange"
  "sortedWithMin starRange range_beta
     = Inr (mkVer 0 0 0 [], mkVer 2 0 0 [Str ''beta''], [[ANY]], setR range_beta)"
  by code_simp+

text \<open>
  Claim C6 asks that the recursion of the reducer ends on all well-formed ranges. The
  code breaks it: on the start value \<^verbatim>\<open>*\<close> and the range \<^verbatim>\<open>^2.0.0-beta\<close> neither range is
  found a subset of the other (the lower bound is a prerelease, which \<^verbatim>\<open>semver.subset\<close>
  does not find inside \<^verbatim>\<open>>=0.0.0\<close>), the minimum versions 0.0.0 and 2.0.0-beta differ, the
  star loses its only group in the realignment and is rebuilt from the empty text, which
  is the star again, and the two realigned ranges intersect: the function calls itself
  on the same pair for ever. So the reducer does not return, and neither does the
  aggregation of a single package that declares \<^verbatim>\<open>^2.0.0-beta\<close>.
\<close>

theorem restrictiveRange_diverges_on_prerelease_floor:
  "restrictiveRange starRange range_beta ign = None \<and>
   newRangeCanonical ''>=2.0.0-beta <3.0.0-0'' = Some range_beta \<and>
   computeEnginesConstraint newRangeCanonical
     [nodePackage ''a'' ''>=2.0.0-beta <3.0.0-0''] ''node'' = None"
proof -
  have d: "restrictiveRange starRange range_beta ign = None" for ign
    by (subst restrictiveRange.simps)
      (simp add: star_beta_first_step beta_not_eq beta_aligned beta_intersects beta_diverges)
  have p: "newRangeCanonical ''>=2.0.0-beta <3.0.0-0'' = Some range_beta" by code_simp
  have f: "formatRange range_beta = ''>=2.0.0-beta <3.0.0-0''" by code_simp
  have "computeEnginesConstraint newRangeCanonical
     [nodePackage ''a'' ''>=2.0.0-beta <3.0.0-0''] ''node'' = None"
    by (simp add: computeEnginesConstraint_def nodePackage_def validRange_def p f d)
  with d p show ?thesis by simp
qed

subsection \<open>The start of the aggregation\<close>

text \<open>
  The list of ignored ranges only grows in the reducer, and the accumulator of the loop
  is defined at every turn: it starts as \<^verbatim>\<open>new Range('*')\<close>, so the branch \<^verbatim>\<open>!mrr\<close> of
  the loop is never taken. When the range of the first constraint is found a subset of
  the star, the short-circuit returns it and pushes \<^verbatim>\<open>*\<close>; and once \<^verbatim>\<open>*\<close> is among the
  ignored ranges, a package whose validated constraint text is \<^verbatim>\<open>*\<close> is passed over.
\<close>

lemma pushRest_snd: "snd (pushRest h res) = snd res"
  by (cases "(h, res)" rule: pushRest.cases) (auto split: sum.splits)

lemma restrictiveRange_grows:
  "restrictiveRange r1 r2 ign = Some y \<Longrightarrow> set ign \<subseteq> set (snd y)"
proof (erule restrictiveRange.raw_induct [rotated, where P = "\<lambda>r1 r2 ign y. set ign \<subseteq> set (snd y)"])
  fix rec r1 r2 ign y
  assume ih: "\<And>r1 r2 ign y. rec r1 r2 ign = Some y \<Longrightarrow> set ign \<subseteq> set (snd y)"
    and step: "(if subset r1 r2 then Some (Inr r1, ign @ [raw r2])
      else if subset r2 r1 then Some (Inr r2, ign @ [raw r1])
      else case sortedWithMin r1 r2 of
             Inl e \<Rightarrow> Some (Inl e, ign)
           | Inr (minVersion1, minVersion2, sortedR1, sortedR2) \<Rightarrow>
               if \<not> eq minVersion1 minVersion2
               then case alignedRanges sortedR1 sortedR2 (minSemverOf minVersion1 minVersion2) of
                      Inl e \<Rightarrow> Some (Inl e, ign)
                    | Inr (newR1, newR2) \<Rightarrow>
                        if intersects newR1 newR2 then rec newR1 newR2 ign
                        else Some (Inl NotYetImplemented, ign)
               else case minCompOf sortedR1 sortedR2 of
                      None \<Rightarrow> Some (Inl NotYetImplemented, ign)
                    | Some minComp \<Rightarrow>
                        Option.bind (rec (setToRange (tl sortedR1)) (setToRange (tl sortedR2)) ign)
                          (\<lambda>res. Some (pushRest minComp res))) = Some y"
  show "set ign \<subseteq> set (snd y)"
    using step ih
    by (auto split: if_splits sum.splits prod.splits option.splits
        simp: bind_eq_Some_conv pushRest_snd) blast+
qed

lemma constraintLoop_defined:
  "constraintLoop P key pkgs (Some m) ign = Some (Inr (mrr', ign')) \<Longrightarrow> mrr' \<noteq> None"
proof (induction pkgs arbitrary: m ign)
  case Nil
  then show ?case by auto
next
  case (Cons x pkgs)
  obtain n p where x: "x = (n, p)" by (cases x)
  show ?case using Cons.prems unfolding x
    by (auto split: option.splits sum.splits prod.splits if_splits dest: Cons.IH)
qed

lemma first_usable:
  assumes "getConstraintFromEngines (engines pkg) key = Some c" "c \<noteq> []"
    "validRange P c = Some t" "P t = Some r" "\<not> subset starRange r" "subset r starRange"
  shows "constraintLoop P key ((n, pkg) # rest) (Some starRange) [] =
         constraintLoop P key rest (Some (if raw r = ''*'' then starRange else r)) [''*'']"
proof -
  have "restrictiveRange starRange r [] = Some (Inr r, [''*''])"
    using assms by (subst restrictiveRange.simps) (simp add: starRange_def)
  then show ?thesis using assms by (auto simp: starRange_def)
qed

lemma star_skipped:
  assumes "getConstraintFromEngines (engines pkg) key = Some c" "validRange P c = Some ''*''"
  shows "''*'' \<in> set ign \<Longrightarrow> constraintLoop P key (xs @ (n, pkg) # ys) mrr ign = constraintLoop P key (xs @ ys) mrr ign"
proof (induction xs arbitrary: mrr ign)
  case Nil
  then show ?case using assms by simp
next
  case (Cons x xs)
  obtain m p where x: "x = (m, p)" by (cases x)
  have g: "\<And>a b i res i'. restrictiveRange a b ign = Some (res, i') \<Longrightarrow> ''*'' \<in> set i'"
    using restrictiveRange_grows Cons.prems by fastforce
  show ?case unfolding x using Cons.prems
    by (auto simp: Cons.IH g split: option.splits sum.splits prod.splits)
qed

subsection \<open>The order of versions and the alignment to a minimum version\<close>


lemma compareIdentifiers_zero: "compareIdentifiers a b = 0 \<longleftrightarrow> a = b"
  by (cases a; cases b) auto
lemma compareIdentifiers_antisym: "compareIdentifiers b a = - compareIdentifiers a b"
  by (cases a; cases b) auto

lemma compareIdentifiers_trans:
  "compareIdentifiers a b \<le> 0 \<Longrightarrow> compareIdentifiers b c \<le> 0 \<Longrightarrow> compareIdentifiers a c \<le> 0"
  by (cases a; cases b; cases c) (auto split: if_splits)

lemma comparePreLoop_refl: "comparePreLoop p p = 0"
  by (induction p) auto

lemma comparePreLoop_zero_eq: "comparePreLoop p q = 0 \<Longrightarrow> p = q"
proof (induction p q rule: comparePreLoop.induct)
  case (4 a as b bs)
  show ?case
  proof (cases "a = b")
    case True
    with 4 show ?thesis by simp
  next
    case False
    with 4 have "compareIdentifiers a b = 0" by simp
    with False show ?thesis using compareIdentifiers_zero [of a b] by simp
  qed
qed simp_all

lemma comparePreLoop_antisym: "comparePreLoop q p = - comparePreLoop p q"
proof (induction p q rule: comparePreLoop.induct)
  case (4 a as b bs)
  then show ?case using compareIdentifiers_antisym [of a b] by auto
qed simp_all

lemma comparePreLoop_trans:
  "comparePreLoop p q \<le> 0 \<Longrightarrow> comparePreLoop q r \<le> 0 \<Longrightarrow> comparePreLoop p r \<le> 0"
proof (induction p q arbitrary: r rule: comparePreLoop.induct)
  case 1
  then show ?case by simp
next
  case (2 a as)
  then show ?case by simp
next
  case (3 b bs)
  then show ?case by (cases r) auto
next
  case (4 a as b bs)
  show ?case
  proof (cases r)
    case Nil
    with 4 show ?thesis by (auto split: if_splits)
  next
    case (Cons c cs)
    show ?thesis
    proof (cases "a = b")
      case True
      with 4 Cons show ?thesis by (auto split: if_splits)
    next
      case ab: False
      show ?thesis
      proof (cases "b = c")
        case True
        with 4 Cons ab show ?thesis by (auto split: if_splits)
      next
        case bc: False
        have 1: "compareIdentifiers a b \<le> 0" and 2: "compareIdentifiers b c \<le> 0"
          using 4 Cons ab bc by auto
        then have le: "compareIdentifiers a c \<le> 0" by (rule compareIdentifiers_trans)
        have "a \<noteq> c"
        proof
          assume "a = c"
          then have "compareIdentifiers b a \<le> 0" using 2 by simp
          then have "compareIdentifiers a b \<ge> 0" using compareIdentifiers_antisym [of a b] by simp
          with 1 have "compareIdentifiers a b = 0" by simp
          with ab show False using compareIdentifiers_zero [of a b] by simp
        qed
        with le Cons show ?thesis by simp
      qed
    qed
  qed
qed


lemma comparePre_zero: "comparePre a b = 0 \<longleftrightarrow> prerelease a = prerelease b"
proof (cases "prerelease a = [] \<or> prerelease b = []")
  case True
  then show ?thesis by (auto simp: comparePre_def)
next
  case False
  then have "comparePre a b = comparePreLoop (prerelease a) (prerelease b)"
    by (simp add: comparePre_def)
  then show ?thesis
    using comparePreLoop_refl [of "prerelease a"]
      comparePreLoop_zero_eq [of "prerelease a" "prerelease b"]
    by auto
qed

lemma comparePre_antisym: "comparePre b a = - comparePre a b"
  using comparePreLoop_antisym [of "prerelease a" "prerelease b"]
  by (auto simp: comparePre_def)

lemma comparePre_trans:
  "comparePre a b \<le> 0 \<Longrightarrow> comparePre b c \<le> 0 \<Longrightarrow> comparePre a c \<le> 0"
  using comparePreLoop_trans [of "prerelease a" "prerelease b" "prerelease c"]
  by (auto simp: comparePre_def split: if_splits)

lemma compareMain_less:
  "compareMain a b < 0 \<longleftrightarrow>
     major a < major b \<or> (major a = major b \<and> (minor a < minor b \<or> (minor a = minor b \<and> patch a < patch b)))"
  by (auto simp: compareMain_def compareNat_def split: if_splits)

lemma compareMain_zero:
  "compareMain a b = 0 \<longleftrightarrow> major a = major b \<and> minor a = minor b \<and> patch a = patch b"
  by (auto simp: compareMain_def compareNat_def split: if_splits)

lemma compareMain_antisym: "compareMain b a = - compareMain a b"
  by (auto simp: compareMain_def compareNat_def split: if_splits)

lemma compareMain_trans:
  "compareMain a b \<le> 0 \<Longrightarrow> compareMain b c \<le> 0 \<Longrightarrow> compareMain a c \<le> 0"
  unfolding order_le_less compareMain_less compareMain_zero by auto


lemma compare_zero: "compare a b = 0 \<longleftrightarrow> a = b"
proof
  assume "compare a b = 0"
  then have "compareMain a b = 0" and "comparePre a b = 0"
    by (auto simp: compare_def split: if_splits)
  then show "a = b"
    using compareMain_zero [of a b] comparePre_zero [of a b] by simp
next
  assume "a = b"
  then show "compare a b = 0"
    using compareMain_zero [of a b] comparePre_zero [of a b] by (simp add: compare_def)
qed

lemma compare_antisym: "compare b a = - compare a b"
  using compareMain_antisym [of a b] comparePre_antisym [of a b]
  by (simp add: compare_def)

lemma compare_trans:
  assumes "compare a b \<le> 0" and "compare b c \<le> 0"
  shows "compare a c \<le> 0"
proof -
  have mab: "compareMain a b \<le> 0" and mbc: "compareMain b c \<le> 0"
    using assms by (auto simp: compare_def split: if_splits)
  then have mac: "compareMain a c \<le> 0" by (rule compareMain_trans)
  show ?thesis
  proof (cases "compareMain a c = 0")
    case False
    with mac show ?thesis by (simp add: compare_def)
  next
    case True
    have ca: "compareMain c a \<le> 0" using True compareMain_antisym [of a c] by simp
    then have "compareMain c b \<le> 0" using mab by (rule compareMain_trans)
    then have b0: "compareMain b c = 0" using mbc compareMain_antisym [of b c] by simp
    have "compareMain b a \<le> 0" using mbc ca by (rule compareMain_trans)
    then have a0: "compareMain a b = 0" using mab compareMain_antisym [of a b] by simp
    have "comparePre a b \<le> 0" "comparePre b c \<le> 0"
      using assms a0 b0 by (auto simp: compare_def)
    then have "comparePre a c \<le> 0" by (rule comparePre_trans)
    with True show ?thesis by (simp add: compare_def)
  qed
qed


lemma compare_le_less_trans:
  assumes "compare a b \<le> 0" and "compare b c < 0"
  shows "compare a c < 0"
proof -
  have le: "compare a c \<le> 0" using assms compare_trans [of a b c] by simp
  have "compare a c \<noteq> 0"
  proof
    assume "compare a c = 0"
    then have "a = c" using compare_zero [of a c] by simp
    with assms(1) have "compare c b \<le> 0" by simp
    with assms(2) show False using compare_antisym [of b c] by simp
  qed
  with le show ?thesis by simp
qed















subsection \<open>A subset that the short-circuit misses\<close>

text \<open>
  Claim C1 asks that the reducer return \<open>a\<close>, and push the raw text of \<open>b\<close>, whenever
  every version of \<open>a\<close> is a version of \<open>b\<close>. The code breaks it on the range \<^verbatim>\<open><2.0.0\<close>
  and the star: the versions of \<^verbatim>\<open><2.0.0\<close> are the versions of the star below 2.0.0, but
  \<^verbatim>\<open>semver.subset\<close> answers no in both directions (an upper bound alone is not found
  inside \<^verbatim>\<open>>=0.0.0\<close>), so the short-circuit is not taken. Both minimum versions are
  0.0.0, a head group is taken, both remainders are empty and are rebuilt from the empty
  text as the star, and the text \<^verbatim>\<open><2.0.0||\<close> (or \<^verbatim>\<open>||\<close>, in the other order) is read
  back as the star: the reducer returns the universal range, which admits 2.0.0, and
  pushes the empty text.
\<close>

theorem restrictiveRange_misses_upper_bound_subset:
  "newRangeCanonical ''<2.0.0'' = Some range_lt_2 \<and>
   newRangeCanonical ''*'' = Some starRange \<and>
   (\<forall>v. rangeTest range_lt_2 v = (rangeTest starRange v \<and> lt v (mkVer 2 0 0 []))) \<and>
   \<not> subset range_lt_2 starRange \<and> \<not> subset starRange range_lt_2 \<and>
   restrictiveRange range_lt_2 starRange [] = Some (Inr range_lt_2_bars, [[]]) \<and>
   restrictiveRange starRange range_lt_2 [] = Some (Inr range_bars, [[]]) \<and>
   rangeTest range_lt_2_bars (mkVer 2 0 0 []) \<and>
   rangeTest range_bars (mkVer 2 0 0 []) \<and>
   \<not> rangeTest range_lt_2 (mkVer 2 0 0 [])"
proof -
  have 1: "\<forall>v. rangeTest range_lt_2 v = (rangeTest starRange v \<and> lt v (mkVer 2 0 0 []))"
    by (auto simp: rangeTest_def range_lt_2_def starRange_def testSet_def)
  have 2: "\<not> subset range_lt_2 starRange" "\<not> subset starRange range_lt_2" by code_simp+
  have 3: "restrictiveRange range_lt_2 starRange [] = Some (Inr range_lt_2_bars, [[]])"
    by code_simp
  have 4: "restrictiveRange starRange range_lt_2 [] = Some (Inr range_bars, [[]])"
    by code_simp
  have 5: "rangeTest range_lt_2_bars (mkVer 2 0 0 [])" "rangeTest range_bars (mkVer 2 0 0 [])"
    "\<not> rangeTest range_lt_2 (mkVer 2 0 0 [])"
    by code_simp+
  have 6: "newRangeCanonical ''<2.0.0'' = Some range_lt_2"
    "newRangeCanonical ''*'' = Some starRange"
    by code_simp+
  show ?thesis using 1 2 3 4 5 6 by blast
qed

subsection \<open>The universal range in the humanizer\<close>

text \<open>
  Claim C8 asks for the text \<^verbatim>\<open>*\<close> on the absent range and on every universal range.
  The code tests the raw text only, and breaks the claim on the universal ranges that
  the reducer builds: \<^verbatim>\<open>setToRange([])\<close>, the range of the empty text, and the range of
  the text \<^verbatim>\<open>||\<close> have the one group \<^verbatim>\<open>*\<close> of \<^verbatim>\<open>new Range('*')\<close> and admit the same
  versions, and are printed as the empty text (the group falls to the last branch,
  which prints the empty value of the comparator).
\<close>

theorem humanizeRange_universal_empty_text:
  "newRangeCanonical [] = Some (setToRange []) \<and>
   newRangeCanonical ''||'' = Some range_bars \<and>
   setToRange [] = \<lparr>raw = [], setR = [[ANY]]\<rparr> \<and>
   setR (setToRange []) = setR starRange \<and>
   (\<forall>v. rangeTest (setToRange []) v = rangeTest starRange v) \<and>
   humanizeRange (Some (setToRange [])) = Inr [] \<and>
   setR range_bars = setR starRange \<and>
   (\<forall>v. rangeTest range_bars v = rangeTest starRange v) \<and>
   humanizeRange (Some range_bars) = Inr [] \<and>
   humanizeRange (Some starRange) = Inr ''*''"
proof -
  have 1: "setToRange [] = \<lparr>raw = [], setR = [[ANY]]\<rparr>" by code_simp
  have 2: "setR (setToRange []) = setR starRange" "setR range_bars = setR starRange"
    by (simp_all add: 1 starRange_def range_bars_def)
  have 3: "\<forall>v. rangeTest (setToRange []) v = rangeTest starRange v"
    "\<forall>v. rangeTest range_bars v = rangeTest starRange v"
    by (simp_all add: rangeTest_def 2)
  have 4: "humanizeRange (Some (setToRange [])) = Inr []" by code_simp
  have 5: "humanizeRange (Some range_bars) = Inr []" by code_simp
  have 6: "humanizeRange (Some starRange) = Inr ''*''"
    by (simp add: humanizeRange_def starRange_def)
  have 7: "newRangeCanonical [] = Some (setToRange [])"
    "newRangeCanonical ''||'' = Some range_bars"
    by code_simp+
  show ?thesis using 1 2 3 4 5 6 7 by blast
qed

subsection \<open>Disjoint ranges for which no error is raised\<close>

lemma caret_1_3_disjoint: "\<not> (rangeTest range_caret_1 v \<and> rangeTest range_caret_3 v)"
proof
  assume "rangeTest range_caret_1 v \<and> rangeTest range_caret_3 v"
  moreover have "caretGroup 1 0 0 = [Cmp OpGe (mkVer 1 0 0 []), Cmp OpLt (mkVer 2 0 0 [Num 0])]"
    and "caretGroup 3 0 0 = [Cmp OpGe (mkVer 3 0 0 []), Cmp OpLt (mkVer 4 0 0 [Num 0])]"
    by code_simp+
  ultimately have "lt v (mkVer 2 0 0 [Num 0])" and "gte v (mkVer 3 0 0 [])"
    by (auto simp: rangeTest_def range_caret_1_def range_caret_3_def testSet_def
        split: if_splits)
  then have "compare (mkVer 3 0 0 []) v \<le> 0" and "compare v (mkVer 2 0 0 [Num 0]) < 0"
    using compare_antisym [of v "mkVer 3 0 0 []"] by (simp_all add: lt_def gte_def)
  then have "compare (mkVer 3 0 0 []) (mkVer 2 0 0 [Num 0]) < 0"
    by (rule compare_le_less_trans)
  moreover have "compare (mkVer 3 0 0 []) (mkVer 2 0 0 [Num 0]) = 1" by code_simp
  ultimately show False by simp
qed

text \<open>
  Claim C2 asks for the error when the minimum versions differ and the ranges realigned
  to the larger one do not intersect, and for no wrong answer otherwise. The code breaks
  it on the disjoint ranges \<^verbatim>\<open>^1.0.0\<close> and \<^verbatim>\<open>^3.0.0\<close>: the minimum versions 1.0.0 and
  3.0.0 differ, and the realignment to 3.0.0 leaves the first range no group at all,
  so that the realigned group lists share no version. But \<^verbatim>\<open>setToRange([])\<close> rebuilds
  the empty list from the empty text, that is as the star, which intersects \<^verbatim>\<open>^3.0.0\<close>:
  no error is raised, the recursive call finds \<^verbatim>\<open>^3.0.0\<close> a subset of the star, and the
  reducer returns \<^verbatim>\<open>^3.0.0\<close> for two ranges that have no version in common (and pushes
  the empty text).
\<close>

theorem restrictiveRange_returns_on_disjoint_ranges:
  "newRangeCanonical ''>=1.0.0 <2.0.0-0'' = Some range_caret_1 \<and>
   newRangeCanonical ''>=3.0.0 <4.0.0-0'' = Some range_caret_3 \<and>
   (\<forall>v. \<not> (rangeTest range_caret_1 v \<and> rangeTest range_caret_3 v)) \<and>
   \<not> intersects range_caret_1 range_caret_3 \<and>
   \<not> subset range_caret_1 range_caret_3 \<and> \<not> subset range_caret_3 range_caret_1 \<and>
   sortedWithMin range_caret_1 range_caret_3
     = Inr (mkVer 1 0 0 [], mkVer 3 0 0 [], setR range_caret_1, setR range_caret_3) \<and>
   \<not> eq (mkVer 1 0 0 []) (mkVer 3 0 0 []) \<and>
   minSemverOf (mkVer 1 0 0 []) (mkVer 3 0 0 []) = mkVer 3 0 0 [] \<and>
   applyMinVersionToRangeSet (setR range_caret_1) (mkVer 3 0 0 []) = Inr [] \<and>
   applyMinVersionToRangeSet (setR range_caret_3) (mkVer 3 0 0 []) = Inr (setR range_caret_3) \<and>
   (\<forall>v. \<not> (rangeSetTest [] v \<and> rangeSetTest (setR range_caret_3) v)) \<and>
   alignedRanges (setR range_caret_1) (setR range_caret_3) (mkVer 3 0 0 [])
     = Inr (\<lparr>raw = [], setR = [[ANY]]\<rparr>, range_caret_3) \<and>
   intersects \<lparr>raw = [], setR = [[ANY]]\<rparr> range_caret_3 \<and>
   restrictiveRange range_caret_1 range_caret_3 [] = Some (Inr range_caret_3, [[]]) \<and>
   restrictiveRange range_caret_3 range_caret_1 [] = Some (Inr range_caret_3, [[]]) \<and>
   rangeTest range_caret_3 (mkVer 3 1 0 []) \<and> \<not> rangeTest range_caret_1 (mkVer 3 1 0 [])"
proof -
  have 1: "\<forall>v. \<not> (rangeTest range_caret_1 v \<and> rangeTest range_caret_3 v)"
    using caret_1_3_disjoint by blast
  have 2: "\<not> intersects range_caret_1 range_caret_3" by code_simp
  have 3: "\<not> subset range_caret_1 range_caret_3" "\<not> subset range_caret_3 range_caret_1"
    by code_simp+
  have 4: "sortedWithMin range_caret_1 range_caret_3
     = Inr (mkVer 1 0 0 [], mkVer 3 0 0 [], setR range_caret_1, setR range_caret_3)"
    by code_simp
  have 5: "\<not> eq (mkVer 1 0 0 []) (mkVer 3 0 0 [])"
    "minSemverOf (mkVer 1 0 0 []) (mkVer 3 0 0 []) = mkVer 3 0 0 []"
    by code_simp+
  have 6: "applyMinVersionToRangeSet (setR range_caret_1) (mkVer 3 0 0 []) = Inr []"
    "applyMinVersionToRangeSet (setR range_caret_3) (mkVer 3 0 0 []) = Inr (setR range_caret_3)"
    by code_simp+
  have 7: "\<forall>v. \<not> (rangeSetTest [] v \<and> rangeSetTest (setR range_caret_3) v)"
    by (simp add: rangeSetTest_def)
  have 8: "alignedRanges (setR range_caret_1) (setR range_caret_3) (mkVer 3 0 0 [])
     = Inr (\<lparr>raw = [], setR = [[ANY]]\<rparr>, range_caret_3)"
    by code_simp
  have 9: "intersects \<lparr>raw = [], setR = [[ANY]]\<rparr> range_caret_3" by code_simp
  have 10: "restrictiveRange range_caret_1 range_caret_3 [] = Some (Inr range_caret_3, [[]])"
    "restrictiveRange range_caret_3 range_caret_1 [] = Some (Inr range_caret_3, [[]])"
    by code_simp+
  have 11: "rangeTest range_caret_3 (mkVer 3 1 0 [])" "\<not> rangeTest range_caret_1 (mkVer 3 1 0 [])"
    by code_simp+
  have 12: "newRangeCanonical ''>=1.0.0 <2.0.0-0'' = Some range_caret_1"
    "newRangeCanonical ''>=3.0.0 <4.0.0-0'' = Some range_caret_3"
    by code_simp+
  show ?thesis using 1 2 3 4 5 6 7 8 9 10 11 12 by blast
qed

subsection \<open>The head group of the merge\<close>

text \<open>
  Claim C5 asks that, for two ranges with equal minimum versions and neither a subset
  of the other, the first group of the result be the lowest group of the first range.
  The code breaks it on \<^verbatim>\<open>>=1.0.0 <2.0.0-beta\<close> and \<^verbatim>\<open>>=1.0.0 <3.0.0\<close>: both have the
  minimum version 1.0.0, the first admits 2.0.0-alpha, which the second refuses, the
  second admits 2.5.0, which the first refuses, and \<^verbatim>\<open>semver.subset\<close> answers no in both
  directions. The head group of the first range is taken (\<^verbatim>\<open>set = [minComp]\<close>), both
  remainders are empty and are rebuilt from the empty text as the star, the star group
  of their merge is pushed behind the head, and the constructor, given the text
  \<^verbatim>\<open>>=1.0.0 <2.0.0-beta||\<close>, replaces the whole group list by the star. The only group of
  the result is the star: the head group is lost, and the result admits 5.0.0, which
  both ranges refuse.
\<close>

theorem head_group_lost_on_empty_remainders:
  "newRangeCanonical ''>=1.0.0 <2.0.0-beta'' = Some range_below_beta \<and>
   newRangeCanonical ''>=1.0.0 <3.0.0'' = Some range_below_3 \<and>
   \<not> subset range_below_beta range_below_3 \<and> \<not> subset range_below_3 range_below_beta \<and>
   rangeTest range_below_beta (mkVer 2 0 0 [Str ''alpha'']) \<and>
   \<not> rangeTest range_below_3 (mkVer 2 0 0 [Str ''alpha'']) \<and>
   rangeTest range_below_3 (mkVer 2 5 0 []) \<and>
   \<not> rangeTest range_below_beta (mkVer 2 5 0 []) \<and>
   sortedWithMin range_below_beta range_below_3
     = Inr (mkVer 1 0 0 [], mkVer 1 0 0 [], setR range_below_beta, setR range_below_3) \<and>
   eq (mkVer 1 0 0 []) (mkVer 1 0 0 []) \<and>
   minCompOf (setR range_below_beta) (setR range_below_3) = Some (hd (setR range_below_beta)) \<and>
   restrictiveRange range_below_beta range_below_3 []
     = Some (Inr range_below_beta_bars, [[]]) \<and>
   setR range_below_beta_bars = [[ANY]] \<and>
   hd (setR range_below_beta_bars) \<noteq> hd (setR range_below_beta) \<and>
   rangeTest range_below_beta_bars (mkVer 5 0 0 []) \<and>
   \<not> rangeTest range_below_beta (mkVer 5 0 0 []) \<and>
   \<not> rangeTest range_below_3 (mkVer 5 0 0 [])"
proof -
  have 1: "\<not> subset range_below_beta range_below_3" "\<not> subset range_below_3 range_below_beta"
    by code_simp+
  have 2: "rangeTest range_below_beta (mkVer 2 0 0 [Str ''alpha''])"
    "\<not> rangeTest range_below_3 (mkVer 2 0 0 [Str ''alpha''])"
    "rangeTest range_below_3 (mkVer 2 5 0 [])"
    "\<not> rangeTest range_below_beta (mkVer 2 5 0 [])"
    by code_simp+
  have 3: "sortedWithMin range_below_beta range_below_3
     = Inr (mkVer 1 0 0 [], mkVer 1 0 0 [], setR range_below_beta, setR range_below_3)"
    by code_simp
  have 4: "eq (mkVer 1 0 0 []) (mkVer 1 0 0 [])" by code_simp
  have 5: "minCompOf (setR range_below_beta) (setR range_below_3)
             = Some (hd (setR range_below_beta))"
    by code_simp
  have 6: "restrictiveRange range_below_beta range_below_3 []
     = Some (Inr range_below_beta_bars, [[]])"
    by code_simp
  have 7: "setR range_below_beta_bars = [[ANY]]"
    "hd (setR range_below_beta_bars) \<noteq> hd (setR range_below_beta)"
    by (simp_all add: range_below_beta_bars_def range_below_beta_def)
  have 8: "rangeTest range_below_beta_bars (mkVer 5 0 0 [])"
    "\<not> rangeTest range_below_beta (mkVer 5 0 0 [])"
    "\<not> rangeTest range_below_3 (mkVer 5 0 0 [])"
    by code_simp+
  have 9: "newRangeCanonical ''>=1.0.0 <2.0.0-beta'' = Some range_below_beta"
    "newRangeCanonical ''>=1.0.0 <3.0.0'' = Some range_below_3"
    by code_simp+
  show ?thesis using 1 2 3 4 5 6 7 8 9 by blast
qed

subsection \<open>A first constraint that is not adopted\<close>

text \<open>
  Claim C10 asks that the first usable constraint become the accumulator through the
  subset short-circuit, which appends \<^verbatim>\<open>*\<close> to the ignored ranges, so that later
  constraints of text \<^verbatim>\<open>*\<close> are passed over. The code does so for \<^verbatim>\<open>>=12.22.0\<close>, and
  breaks the claim on the single package declaring \<^verbatim>\<open><2.0.0\<close>: \<^verbatim>\<open>semver.subset\<close> finds
  neither of \<^verbatim>\<open>*\<close> and \<^verbatim>\<open><2.0.0\<close> inside the other, both minimum versions are 0.0.0, and
  the merge returns the range of the text \<^verbatim>\<open>||\<close>, which is the universal range, and
  appends the empty text. The aggregate admits 2.0.0, which the only constraint
  refuses; and a later package declaring \<^verbatim>\<open>*\<close> is not passed over by the test on the
  ignored ranges: it goes through the reducer, which appends \<^verbatim>\<open>*\<close> only then.
\<close>

theorem first_constraint_not_adopted:
  "validRange newRangeCanonical ''<2.0.0'' = Some ''<2.0.0'' \<and>
   newRangeCanonical ''<2.0.0'' = Some range_lt_2 \<and>
   \<not> subset starRange range_lt_2 \<and> \<not> subset range_lt_2 starRange \<and>
   constraintLoop newRangeCanonical ''node'' [nodePackage ''a'' ''<2.0.0''] (Some starRange) []
     = Some (Inr (Some range_bars, [[]])) \<and>
   computeEnginesConstraint newRangeCanonical [nodePackage ''a'' ''<2.0.0''] ''node''
     = Some (Inr (Some range_bars)) \<and>
   raw range_bars \<noteq> raw range_lt_2 \<and>
   rangeTest range_bars (mkVer 2 0 0 []) \<and> \<not> rangeTest range_lt_2 (mkVer 2 0 0 []) \<and>
   ''*'' \<notin> set [[]] \<and>
   validRange newRangeCanonical ''*'' = Some ''*'' \<and>
   constraintLoop newRangeCanonical ''node''
     [nodePackage ''a'' ''<2.0.0'', nodePackage ''b'' ''*''] (Some starRange) []
     = Some (Inr (Some range_bars, [[], ''*''])) \<and>
   constraintLoop newRangeCanonical ''node'' [nodePackage ''a'' ''>=12.22.0''] (Some starRange) []
     = Some (Inr (Some range_12_22, [''*'']))"
proof -
  have 0: "validRange newRangeCanonical ''<2.0.0'' = Some ''<2.0.0''" by code_simp
  have 1: "newRangeCanonical ''<2.0.0'' = Some range_lt_2" by code_simp
  have 2: "\<not> subset starRange range_lt_2" "\<not> subset range_lt_2 starRange" by code_simp+
  have 3: "constraintLoop newRangeCanonical ''node'' [nodePackage ''a'' ''<2.0.0'']
             (Some starRange) [] = Some (Inr (Some range_bars, [[]]))"
    by code_simp
  have 4: "computeEnginesConstraint newRangeCanonical [nodePackage ''a'' ''<2.0.0''] ''node''
     = Some (Inr (Some range_bars))"
    by code_simp
  have 5: "raw range_bars \<noteq> raw range_lt_2" "''*'' \<notin> set [[]]"
    by (simp_all add: range_bars_def range_lt_2_def)
  have 6: "rangeTest range_bars (mkVer 2 0 0 [])" "\<not> rangeTest range_lt_2 (mkVer 2 0 0 [])"
    by code_simp+
  have 7: "validRange newRangeCanonical ''*'' = Some ''*''" by code_simp
  have 8: "constraintLoop newRangeCanonical ''node''
     [nodePackage ''a'' ''<2.0.0'', nodePackage ''b'' ''*''] (Some starRange) []
     = Some (Inr (Some range_bars, [[], ''*'']))"
    by code_simp
  have 9: "constraintLoop newRangeCanonical ''node'' [nodePackage ''a'' ''>=12.22.0'']
     (Some starRange) [] = Some (Inr (Some range_12_22, [''*'']))"
    by code_simp
  show ?thesis using 0 1 2 3 4 5 6 7 8 9 by blast
qed

end
